theory Spec2Isabelle
  imports Complex_Main
begin

section \<open>The trainer's game state (internal/game/game.go, the later revision)\<close>

text \<open>
  The source file holds two revisions of package \<open>game\<close>; the second one (with objectives,
  \<open>End\<close> and the win check) is the one embedded here.

  Representation choices:
  \<^item> \<open>TileState\<close> and \<open>GameState\<close> are Go \<open>int\<close> enumerations; only the declared constants are
    ever stored, so they are datatypes. The zero value of \<open>TileState\<close> is \<open>EmptyTile\<close>.
  \<^item> The array \<open>[NUM_ROWS][NUM_COLS]tile\<close> is a function from \<open>(row, column)\<close> to tiles. The
    functions below read and write only cells with \<open>row < NUM_ROWS\<close> and
    \<open>column < NUM_COLS\<close> as long as \<open>columnObjective < 4\<close> (what \<open>rand.Intn(4)\<close> gives);
    an access outside the array would be a run-time panic in Go.
  \<^item> Indices are Go \<open>int\<close>s that never become negative: every subtraction in the source
    is guarded (\<open>row > 1\<close> before \<open>row-2\<close>) or bounded by the loop (\<open>g.rows-1-r\<close>), so they
    are natural numbers. \<open>g.rows\<close> and \<open>g.cols\<close> are written once, in \<open>New\<close>, to
    \<open>NUM_ROWS\<close> and \<open>NUM_COLS\<close>.
  \<^item> Tile coordinates and the cursor are \<open>float32\<close> values that are small integers
    (multiples of 30 below 2000, and converted \<open>int\<close>s), on which \<open>float32\<close> addition and
    comparison are exact; they are integers here.
  \<^item> \<open>rotation\<close> is a \<open>float32\<close> that starts at 0 and is only incremented by 1 or reset;
    these values are exact up to \<open>2^24\<close>, where \<open>+ 1\<close> rounds back to \<open>2^24\<close>.
  \<^item> \<open>timeLeft\<close> is a \<open>float32\<close> with genuinely rounded arithmetic: it is a real number
    and every \<open>float32\<close> operation is followed by a rounding function \<open>rnd\<close> that the
    definitions take as a parameter and the theorems leave arbitrary.
  \<^item> The clock, the cursor, the mouse button and the random source are inputs of a tick.
  \<^item> Fonts, images and drawing are left out; no modelled function reads them.
\<close>

definition NUM_ROWS :: nat where "NUM_ROWS = 5"
definition NUM_COLS :: nat where "NUM_COLS = 7"
definition WIDTH :: int where "WIDTH = 1920"
definition HEIGHT :: int where "HEIGHT = 1080"
definition BUTTON_WIDTH :: int where "BUTTON_WIDTH = 300"
definition BUTTON_HEIGHT :: int where "BUTTON_HEIGHT = 100"
definition TITLE_RADIUS :: int where "TITLE_RADIUS = 60"
definition MAX_TIME :: real where "MAX_TIME = 15"

datatype TileState =
  EmptyTile | AlphaTile | BetaTile | CenterTile | MouseOverTile | PlayerTile | InvalidTile

datatype GameState = StandByState | PlayingState | EndState

datatype ButtonColor = darkGreen | green

record tile =
  state :: TileState
  tileX :: int
  tileY :: int
  rotation :: nat

record BoardPosition =
  row :: nat
  column :: nat

type_synonym grid = "nat \<times> nat \<Rightarrow> tile"

record game =
  board :: grid
  gameState :: GameState
  buttonX :: int
  buttonY :: int
  buttonColor :: ButtonColor
  timeLeft :: real
  symbolObjective :: TileState
  columnObjective :: nat
  centerSymbolPosition :: BoardPosition
  objectiveSymbolPosition :: BoardPosition
  win :: bool

text \<open>What one call of \<open>Update\<close> reads from its environment.\<close>

record tick =
  elapsedMillis :: int
  cursorX :: int
  cursorY :: int
  pressed :: bool
  drawSymbol :: nat
  drawColumn :: nat

subsection \<open>Hit tests\<close>

definition ShapeHit :: "int \<Rightarrow> int \<Rightarrow> int \<Rightarrow> int \<Rightarrow> bool" where
  "ShapeHit shapeX shapeY pointX pointY =
     (let adjustRadius = (TITLE_RADIUS * 5) div 4 in
      if pointX > shapeX - adjustRadius \<and> pointX < shapeX + adjustRadius
         \<and> pointY > shapeY - adjustRadius \<and> pointY < shapeY + adjustRadius
      then True else False)"

definition ButtonHit :: "game \<Rightarrow> int \<Rightarrow> int \<Rightarrow> bool" where
  "ButtonHit g px py =
     (if px > buttonX g \<and> px < buttonX g + BUTTON_WIDTH
         \<and> py > buttonY g \<and> py < buttonY g + BUTTON_HEIGHT
      then True else False)"

subsection \<open>Tile placement\<close>

definition isSymbol :: "TileState \<Rightarrow> bool" where
  "isSymbol s = (s = AlphaTile \<or> s = BetaTile \<or> s = CenterTile)"

definition RemoveTileWithState :: "TileState \<Rightarrow> game \<Rightarrow> game" where
  "RemoveTileWithState s g =
     g\<lparr>board :=
        fold (\<lambda>r. fold (\<lambda>c b.
                if state (b (r, c)) = s
                then b((r, c) := (b (r, c))\<lparr>state := EmptyTile\<rparr>)
                else b) [0..<NUM_COLS]) [0..<NUM_ROWS] (board g)\<rparr>"

text \<open>\<open>SetTile\<close> takes the column first and the row second.\<close>

definition SetTile :: "nat \<Rightarrow> nat \<Rightarrow> TileState \<Rightarrow> game \<Rightarrow> game" where
  "SetTile c r s g0 =
     (let g = (case s of
                 PlayerTile \<Rightarrow> RemoveTileWithState s g0
               | MouseOverTile \<Rightarrow> RemoveTileWithState s g0
               | _ \<Rightarrow> g0)
      in g\<lparr>board := (board g)((r, c) := (board g (r, c))\<lparr>state := s, rotation := 0\<rparr>)\<rparr>)"

subsection \<open>Starting a round\<close>

definition Standby :: "game \<Rightarrow> game" where
  "Standby g =
     g\<lparr>board :=
         fold (\<lambda>r. fold (\<lambda>c b. b((r, c) := (b (r, c))\<lparr>state := InvalidTile\<rparr>))
                 [0..<NUM_COLS]) [0..<NUM_ROWS] (board g),
       gameState := StandByState\<rparr>"

text \<open>
  The layout loop of \<open>Reset\<close> carries the running pixel coordinates \<open>x\<close> and \<open>y\<close>
  along with the board.
\<close>

definition layoutCell :: "nat \<Rightarrow> int \<Rightarrow> nat \<Rightarrow> grid \<times> int \<Rightarrow> grid \<times> int" where
  "layoutCell r py c bx =
     (case bx of (b, px) \<Rightarrow>
        (b((r, c) := (b (r, c))\<lparr>state := EmptyTile, rotation := 0, tileX := px, tileY := py\<rparr>),
         px + TITLE_RADIUS * 3))"

definition layoutRow :: "nat \<Rightarrow> grid \<times> int \<times> int \<Rightarrow> grid \<times> int \<times> int" where
  "layoutRow r bxy =
     (case bxy of (b, px, py) \<Rightarrow>
        (case fold (layoutCell r py) [0..<NUM_COLS] (b, px) of (b', px') \<Rightarrow>
           (b', TITLE_RADIUS * 3, py + (TITLE_RADIUS * 5) div 2)))"

definition markInvalid :: "nat \<Rightarrow> nat \<Rightarrow> game \<Rightarrow> game" where
  "markInvalid r c g = g\<lparr>board := (board g)((r, c) := (board g (r, c))\<lparr>state := InvalidTile\<rparr>)\<rparr>"

text \<open>
  \<open>rand.Intn n\<close> returns a number below \<open>n\<close>; the draw is an arbitrary natural number
  reduced modulo \<open>n\<close>. \<open>TileState(rand.Intn(2) + 1)\<close> is \<open>AlphaTile\<close> for 0 and
  \<open>BetaTile\<close> for 1.
\<close>

definition tileStateOfDraw :: "nat \<Rightarrow> TileState" where
  "tileStateOfDraw d = (if d mod 2 + 1 = 1 then AlphaTile else BetaTile)"

definition Reset :: "nat \<Rightarrow> nat \<Rightarrow> game \<Rightarrow> game" where
  "Reset dSym dCol g0 =
     (let startX = TITLE_RADIUS * 3;
          startY = TITLE_RADIUS * 3;
          g = g0\<lparr>board := fst (fold layoutRow [0..<NUM_ROWS] (board g0, startX, startY))\<rparr>;
          g = markInvalid 1 1 g;
          g = markInvalid 3 1 g;
          g = markInvalid 1 3 g;
          g = markInvalid 3 3 g;
          g = markInvalid 1 5 g;
          g = markInvalid 3 5 g;
          g = SetTile 0 0 BetaTile g;
          g = SetTile 0 2 CenterTile g;
          g = SetTile 0 4 AlphaTile g;
          g = SetTile 2 0 CenterTile g;
          g = SetTile 2 2 AlphaTile g;
          g = SetTile 2 4 BetaTile g;
          g = SetTile 4 0 BetaTile g;
          g = SetTile 4 2 BetaTile g;
          g = SetTile 4 4 CenterTile g;
          g = SetTile 6 0 AlphaTile g;
          g = SetTile 6 2 CenterTile g;
          g = SetTile 6 4 AlphaTile g
      in g\<lparr>gameState := PlayingState,
           timeLeft := MAX_TIME,
           symbolObjective := tileStateOfDraw dSym,
           columnObjective := dCol mod 4,
           win := False\<rparr>)"

subsection \<open>The end of a round\<close>

text \<open>First loop of \<open>End\<close>: the local array \<open>states\<close>, zero-initialised.\<close>

definition reflectStates :: "grid \<Rightarrow> nat \<times> nat \<Rightarrow> TileState" where
  "reflectStates b =
     fold (\<lambda>r. fold (\<lambda>c states.
             let currentState = state (b (r, c)) in
             if currentState = AlphaTile \<or> currentState = BetaTile \<or> currentState = CenterTile
             then (let nr = NUM_ROWS - 1 - r; nc = NUM_COLS - 1 - c
                   in states((nr, nc) := currentState))
             else states) [0..<NUM_COLS]) [0..<NUM_ROWS] (\<lambda>_. EmptyTile)"

text \<open>Second loop of \<open>End\<close>: the symbols of \<open>states\<close> are written onto the board.\<close>

definition commitStates :: "(nat \<times> nat \<Rightarrow> TileState) \<Rightarrow> grid \<Rightarrow> grid" where
  "commitStates states b0 =
     fold (\<lambda>r. fold (\<lambda>c b.
             let currentState = states (r, c) in
             if currentState = AlphaTile \<or> currentState = BetaTile \<or> currentState = CenterTile
             then b((r, c) := (b (r, c))\<lparr>state := currentState\<rparr>)
             else b) [0..<NUM_COLS]) [0..<NUM_ROWS] b0"

definition pointReflect :: "grid \<Rightarrow> grid" where
  "pointReflect b = commitStates (reflectStates b) b"

text \<open>The scan for the centre: \<open>objectiveRow\<close> starts at 0, the first match breaks.\<close>

fun centerScan :: "grid \<Rightarrow> nat \<Rightarrow> nat list \<Rightarrow> nat" where
  "centerScan b objectiveColumn [] = 0"
| "centerScan b objectiveColumn (r # rs) =
     (if state (b (r, objectiveColumn)) = CenterTile then r
      else centerScan b objectiveColumn rs)"

definition TilesAroundATileWithAnState :: "grid \<Rightarrow> nat \<Rightarrow> nat \<Rightarrow> TileState \<Rightarrow> BoardPosition list" where
  "TilesAroundATileWithAnState b r c s =
     (let result = [];
          result = (if r > 1 then
                      (if state (b (r - 2, c)) = s
                       then result @ [\<lparr>row = r - 2, column = c\<rparr>] else result)
                    else result);
          result = (if r < NUM_ROWS - 2 then
                      (if state (b (r + 2, c)) = s
                       then result @ [\<lparr>row = r + 2, column = c\<rparr>] else result)
                    else result);
          result = (if c > 1 then
                      (if state (b (r, c - 2)) = s
                       then result @ [\<lparr>row = r, column = c - 2\<rparr>] else result)
                    else result);
          result = (if c < NUM_COLS - 2 then
                      (if state (b (r, c + 2)) = s
                       then result @ [\<lparr>row = r, column = c + 2\<rparr>] else result)
                    else result)
      in result)"

text \<open>The \<open>range\<close> loop over the candidates, with its \<open>break\<close>.\<close>

fun pickCandidate :: "grid \<Rightarrow> BoardPosition list \<Rightarrow> bool \<times> BoardPosition" where
  "pickCandidate b [] = (False, \<lparr>row = 0, column = 0\<rparr>)"
| "pickCandidate b (p # ps) =
     (if length (TilesAroundATileWithAnState b (row p) (column p) CenterTile) = 1
      then (True, p) else pickCandidate b ps)"

text \<open>The pair is \<open>(found, objectivePosition)\<close>.\<close>

definition findObjective :: "grid \<Rightarrow> BoardPosition list \<Rightarrow> bool \<times> BoardPosition" where
  "findObjective b posible =
     (let possibles = length posible in
      if possibles > 0 then
        (if possibles = 1 then (True, posible ! 0) else pickCandidate b posible)
      else (False, \<lparr>row = 0, column = 0\<rparr>))"

fun playerInRow :: "grid \<Rightarrow> nat \<Rightarrow> nat list \<Rightarrow> BoardPosition option" where
  "playerInRow b r [] = None"
| "playerInRow b r (c # cs) =
     (if state (b (r, c)) = PlayerTile then Some \<lparr>row = r, column = c\<rparr>
      else playerInRow b r cs)"

fun playerInRows :: "grid \<Rightarrow> nat list \<Rightarrow> BoardPosition option" where
  "playerInRows b [] = None"
| "playerInRows b (r # rs) =
     (case playerInRow b r [0..<NUM_COLS] of
        Some p \<Rightarrow> Some p
      | None \<Rightarrow> playerInRows b rs)"

definition FindPlayerPosition :: "game \<Rightarrow> bool \<times> BoardPosition" where
  "FindPlayerPosition g =
     (case playerInRows (board g) [0..<NUM_ROWS] of
        Some p \<Rightarrow> (True, p)
      | None \<Rightarrow> (False, \<lparr>row = 0, column = 0\<rparr>))"

definition playerWins :: "BoardPosition \<Rightarrow> game \<Rightarrow> game" where
  "playerWins playerPosition g = g\<lparr>objectiveSymbolPosition := playerPosition, win := True\<rparr>"

text \<open>The body of \<open>if found\<close> in \<open>End\<close>.\<close>

definition checkWin :: "nat \<Rightarrow> nat \<Rightarrow> BoardPosition \<Rightarrow> game \<Rightarrow> game" where
  "checkWin objectiveRow objectiveColumn objectivePosition g0 =
     (let g = g0\<lparr>objectiveSymbolPosition := objectivePosition\<rparr>;
          g = g\<lparr>centerSymbolPosition := \<lparr>row = objectiveRow, column = objectiveColumn\<rparr>\<rparr>;
          center = centerSymbolPosition g
      in case FindPlayerPosition g of (playerFound, playerPosition) \<Rightarrow>
         if playerFound then
           (if row objectivePosition = row center \<and> row center = row playerPosition then
              (if column objectivePosition < column center then
                 (if column playerPosition > column objectivePosition
                     \<and> column playerPosition < column center
                  then playerWins playerPosition g else g)
               else
                 (if column playerPosition < column objectivePosition
                     \<and> column playerPosition > column center
                  then playerWins playerPosition g else g))
            else if column objectivePosition = column center
                    \<and> column center = column playerPosition then
              (if row objectivePosition < row center \<and> row center < row playerPosition then
                 (if row playerPosition > row objectivePosition
                     \<and> row playerPosition < row center
                  then playerWins playerPosition g else g)
               else
                 (if row playerPosition < row objectivePosition
                     \<and> row playerPosition > row center
                  then playerWins playerPosition g else g))
            else g)
         else g)"

text \<open>
  \<open>End\<close> runs three stages in sequence: the flip of the board, the search for the centre
  and the objective, and (when one was found) the win check; then it sets \<open>EndState\<close>.
\<close>

definition flipBoard :: "game \<Rightarrow> game" where
  "flipBoard g0 =
     (let g = RemoveTileWithState MouseOverTile g0
      in g\<lparr>board := pointReflect (board g)\<rparr>)"

text \<open>The result is \<open>(objectiveRow, objectiveColumn, found, objectivePosition)\<close>.\<close>

definition locateObjective :: "game \<Rightarrow> nat \<times> nat \<times> bool \<times> BoardPosition" where
  "locateObjective g =
     (let objectiveColumn = columnObjective g * 2;
          objectiveRow = centerScan (board g) objectiveColumn [0..<NUM_ROWS];
          posible = TilesAroundATileWithAnState (board g) objectiveRow objectiveColumn
                      (symbolObjective g)
      in case findObjective (board g) posible of (found, objectivePosition) \<Rightarrow>
           (objectiveRow, objectiveColumn, found, objectivePosition))"

definition End :: "game \<Rightarrow> game" where
  "End g0 =
     (let g = flipBoard g0
      in case locateObjective g of (objectiveRow, objectiveColumn, found, objectivePosition) \<Rightarrow>
           (if found then checkWin objectiveRow objectiveColumn objectivePosition g else g)
             \<lparr>gameState := EndState\<rparr>)"

subsection \<open>One tick\<close>

definition UpdateButtons :: "tick \<Rightarrow> game \<Rightarrow> game" where
  "UpdateButtons i g =
     (if ButtonHit g (cursorX i) (cursorY i) then
        (let g' = g\<lparr>buttonColor := green\<rparr> in
         if pressed i then Reset (drawSymbol i) (drawColumn i) g' else g')
      else g\<lparr>buttonColor := darkGreen\<rparr>)"

definition UpdateTimeBar :: "(real \<Rightarrow> real) \<Rightarrow> tick \<Rightarrow> game \<Rightarrow> game" where
  "UpdateTimeBar rnd i g0 =
     (let g = g0\<lparr>timeLeft := rnd (timeLeft g0 - rnd (rnd (of_int (elapsedMillis i)) / 1000))\<rparr>
      in if timeLeft g \<le> 0 then End (g\<lparr>timeLeft := 0\<rparr>) else g)"

definition UpdateBoard :: "game \<Rightarrow> game" where
  "UpdateBoard g =
     g\<lparr>board :=
        fold (\<lambda>r. fold (\<lambda>c b.
                if isSymbol (state (b (r, c)))
                then b((r, c) := (b (r, c))\<lparr>rotation :=
                        (if rotation (b (r, c)) < 16777216 then rotation (b (r, c)) + 1
                         else rotation (b (r, c)))\<rparr>)
                else b) [0..<NUM_COLS]) [0..<NUM_ROWS] (board g)\<rparr>"

fun mouseInRow :: "int \<Rightarrow> int \<Rightarrow> bool \<Rightarrow> game \<Rightarrow> nat \<Rightarrow> nat list \<Rightarrow> game option" where
  "mouseInRow cx cy down g r [] = None"
| "mouseInRow cx cy down g r (c # cs) =
     (if state (board g (r, c)) = EmptyTile \<or> state (board g (r, c)) = MouseOverTile then
        (if ShapeHit (tileX (board g (r, c))) (tileY (board g (r, c))) cx cy then
           (if down then Some (SetTile c r PlayerTile g)
            else Some (SetTile c r MouseOverTile g))
         else mouseInRow cx cy down g r cs)
      else mouseInRow cx cy down g r cs)"

fun mouseInRows :: "int \<Rightarrow> int \<Rightarrow> bool \<Rightarrow> game \<Rightarrow> nat list \<Rightarrow> game option" where
  "mouseInRows cx cy down g [] = None"
| "mouseInRows cx cy down g (r # rs) =
     (case mouseInRow cx cy down g r [0..<NUM_COLS] of
        Some g' \<Rightarrow> Some g'
      | None \<Rightarrow> mouseInRows cx cy down g rs)"

text \<open>\<open>Some\<close> is the \<open>return\<close> inside the loops; without a hit the game is unchanged.\<close>

definition HandleMouseInBoard :: "tick \<Rightarrow> game \<Rightarrow> game" where
  "HandleMouseInBoard i g =
     (case mouseInRows (cursorX i) (cursorY i) (pressed i) g [0..<NUM_ROWS] of
        Some g' \<Rightarrow> g'
      | None \<Rightarrow> g)"

text \<open>
  The \<open>switch\<close> of \<open>Update\<close> reads \<open>g.state\<close> once: in the tick in which the countdown
  ends, \<open>UpdateBoard\<close> and \<open>HandleMouseInBoard\<close> still run after \<open>End\<close>.
\<close>

definition Update :: "(real \<Rightarrow> real) \<Rightarrow> tick \<Rightarrow> game \<Rightarrow> game" where
  "Update rnd i g =
     (case gameState g of
        StandByState \<Rightarrow> UpdateButtons i g
      | PlayingState \<Rightarrow> HandleMouseInBoard i (UpdateBoard (UpdateTimeBar rnd i g))
      | EndState \<Rightarrow> UpdateButtons i g)"


subsection \<open>The game that \<open>New\<close> returns\<close>

text \<open>
  All fields start at their zero values; \<open>buttonColor\<close> is assigned before it is ever
  read, so its zero value is not represented.
\<close>

definition New :: game where
  "New =
     (let g = \<lparr>board = (\<lambda>_. \<lparr>state = EmptyTile, tileX = 0, tileY = 0, rotation = 0\<rparr>),
               gameState = StandByState, buttonX = 0, buttonY = 0, buttonColor = darkGreen,
               timeLeft = 0, symbolObjective = EmptyTile, columnObjective = 0,
               centerSymbolPosition = \<lparr>row = 0, column = 0\<rparr>,
               objectiveSymbolPosition = \<lparr>row = 0, column = 0\<rparr>, win = False\<rparr>;
          g = Standby g
      in g\<lparr>buttonX := WIDTH - (BUTTON_WIDTH * 3) div 2,
           buttonY := HEIGHT div 2 - BUTTON_HEIGHT div 2,
           buttonColor := darkGreen\<rparr>)"

section \<open>Notions used to state the properties\<close>

definition inBoard :: "nat \<times> nat \<Rightarrow> bool" where
  "inBoard p = (fst p < NUM_ROWS \<and> snd p < NUM_COLS)"

text \<open>The point reflection of a cell: \<open>(rows-1-row, cols-1-col)\<close>.\<close>

definition mirror :: "nat \<times> nat \<Rightarrow> nat \<times> nat" where
  "mirror p = (NUM_ROWS - 1 - fst p, NUM_COLS - 1 - snd p)"

text \<open>The cells of the array in the order of the nested loops.\<close>

definition cells :: "(nat \<times> nat) list" where
  "cells = List.product [0..<NUM_ROWS] [0..<NUM_COLS]"

text \<open>
  The tile states that \<open>Reset\<close> writes, keyed by \<open>(row, column)\<close>, in the order of its
  assignments (\<open>SetTile\<close> takes the column first).
\<close>

definition fixedLayout :: "nat \<times> nat \<Rightarrow> TileState" where
  "fixedLayout =
     (\<lambda>_. EmptyTile)
       ((1, 1) := InvalidTile, (3, 1) := InvalidTile, (1, 3) := InvalidTile,
        (3, 3) := InvalidTile, (1, 5) := InvalidTile, (3, 5) := InvalidTile,
        (0, 0) := BetaTile, (2, 0) := CenterTile, (4, 0) := AlphaTile,
        (0, 2) := CenterTile, (2, 2) := AlphaTile, (4, 2) := BetaTile,
        (0, 4) := BetaTile, (2, 4) := BetaTile, (4, 4) := CenterTile,
        (0, 6) := AlphaTile, (2, 6) := CenterTile, (4, 6) := AlphaTile)"

text \<open>A game whose board inside the array is a freshly laid out board with states \<open>L\<close>.\<close>

definition laidOut :: "grid \<Rightarrow> (nat \<times> nat \<Rightarrow> TileState) \<Rightarrow> game \<Rightarrow> bool" where
  "laidOut b0 L g =
     (\<forall>p. board g p =
        (if inBoard p
         then \<lparr>state = L p, tileX = 180 + 180 * int (snd p), tileY = 180 + 150 * int (fst p),
               rotation = 0\<rparr>
         else b0 p))"

text \<open>A whole run of ticks.\<close>

definition run :: "(real \<Rightarrow> real) \<Rightarrow> tick list \<Rightarrow> game \<Rightarrow> game" where
  "run rnd ins g = fold (Update rnd) ins g"

text \<open>A board with a single symbol, in the top left corner.\<close>

definition oneAlpha :: grid where
  "oneAlpha = (\<lambda>p. \<lparr>state = (if p = (0, 0) then AlphaTile else EmptyTile),
                      tileX = 0, tileY = 0, rotation = 0\<rparr>)"

text \<open>At most one cell of the array holds state \<open>s\<close>.\<close>

definition atMostOne :: "TileState \<Rightarrow> grid \<Rightarrow> bool" where
  "atMostOne s b =
     (\<forall>p\<in>set cells. \<forall>q\<in>set cells. state (b p) = s \<and> state (b q) = s \<longrightarrow> p = q)"

definition marksUnique :: "game \<Rightarrow> bool" where
  "marksUnique g = (atMostOne MouseOverTile (board g) \<and> atMostOne PlayerTile (board g))"

text \<open>
  A tick 16 ms after the previous one, with the button down and the cursor on the centre
  of the tile in row 1, column 6.
\<close>

definition clickTick :: tick where
  "clickTick = \<lparr>elapsedMillis = 16, cursorX = 1260, cursorY = 330, pressed = True,
                drawSymbol = 0, drawColumn = 0\<rparr>"

text \<open>
  What \<open>End\<close> decides about a game: whether the search on the flipped board found an
  objective (the local variable \<open>found\<close>).
\<close>

definition resolutionFound :: "game \<Rightarrow> bool" where
  "resolutionFound g =
     (case locateObjective (flipBoard g) of
        (objectiveRow, objectiveColumn, found, objectivePosition) \<Rightarrow> found)"

subsection \<open>The disambiguation as the specification words it\<close>

text \<open>
  Reference definitions for claim C4, written from the specification and not from the
  code. The four probes of a cell are the cells two steps up, down, left and right, in
  that order, kept when they lie on the board; the candidates are the probes that hold a
  given state. With no candidate there is no resolution; a single candidate is selected;
  among several, the first one whose own probes hold exactly one Center is selected.
\<close>

definition specProbes :: "nat \<times> nat \<Rightarrow> (int \<times> int) list" where
  "specProbes p = [(int (fst p) - 2, int (snd p)), (int (fst p) + 2, int (snd p)),
                   (int (fst p), int (snd p) - 2), (int (fst p), int (snd p) + 2)]"

definition specInBounds :: "int \<times> int \<Rightarrow> bool" where
  "specInBounds q = (0 \<le> fst q \<and> fst q < int NUM_ROWS \<and> 0 \<le> snd q \<and> snd q < int NUM_COLS)"

definition specNeighbours :: "grid \<Rightarrow> nat \<times> nat \<Rightarrow> TileState \<Rightarrow> BoardPosition list" where
  "specNeighbours b p s =
     map (\<lambda>q. \<lparr>row = nat (fst q), column = nat (snd q)\<rparr>)
       (filter (\<lambda>q. specInBounds q \<and> state (b (nat (fst q), nat (snd q))) = s) (specProbes p))"

definition specDisambiguate :: "grid \<Rightarrow> BoardPosition list \<Rightarrow> BoardPosition option" where
  "specDisambiguate b cands =
     (if length cands = 0 then None
      else if length cands = 1 then Some (hd cands)
      else find (\<lambda>p. length (specNeighbours b (row p, column p) CenterTile) = 1) cands)"

text \<open>The pair \<open>(found, objectivePosition)\<close> of the code, read as an optional position.\<close>

definition resultOf :: "bool \<times> BoardPosition \<Rightarrow> BoardPosition option" where
  "resultOf fp = (if fst fp then Some (snd fp) else None)"

subsection \<open>The countdown along a run\<close>



subsection \<open>Concrete inputs\<close>


text \<open>
  A board whose only symbol is an Alpha in row 2, column 6, and two games on it: one looking
  for Alpha and one looking for Beta that carries marker positions of an earlier round.
\<close>

definition strayBoard :: grid where
  "strayBoard = (\<lambda>p. \<lparr>state = (if p = (2, 6) then AlphaTile else EmptyTile),
                        tileX = 0, tileY = 0, rotation = 0\<rparr>)"

definition strayAlpha :: game where
  "strayAlpha = New\<lparr>board := strayBoard, gameState := PlayingState,
                     symbolObjective := AlphaTile\<rparr>"

definition noBeta :: game where
  "noBeta = strayAlpha\<lparr>symbolObjective := BetaTile,
                       centerSymbolPosition := \<lparr>row = 2, column = 6\<rparr>,
                       objectiveSymbolPosition := \<lparr>row = 0, column = 6\<rparr>\<rparr>"

section \<open>Closed forms of the loops\<close>

text \<open>
  The nested loops over rows and columns visit the cells of the array one after the
  other; a loop whose body rewrites only the cell it visits has a cell-wise closed form.
\<close>

lemma fold_rows_cols:
  "fold (\<lambda>r. fold (\<lambda>c. f r c) cs) rs = fold (\<lambda>p. f (fst p) (snd p)) (List.product rs cs)"
proof (induction rs)
  case Nil
  show ?case by simp
next
  case (Cons r rs)
  have "fold (\<lambda>p. f (fst p) (snd p)) (map (Pair r) cs) = fold (\<lambda>c. f r c) cs"
    by (simp add: fold_map comp_def)
  with Cons show ?case by simp
qed

lemma set_cells: "p \<in> set cells \<longleftrightarrow> inBoard p"
  by (cases p) (simp add: cells_def inBoard_def)

lemma distinct_cells: "distinct cells"
  by (simp add: cells_def distinct_product)

lemma fold_own_cell:
  assumes "distinct ps" and "\<And>p b. step p b = b(p := G p (b p))"
  shows "fold step ps b q = (if q \<in> set ps then G q (b q) else b q)"
  using assms(1)
proof (induction ps arbitrary: b)
  case Nil
  show ?case by simp
next
  case (Cons p ps)
  then have "fold step ps (step p b) q = (if q \<in> set ps then G q (step p b q) else step p b q)"
    by simp
  moreover have "step p b = b(p := G p (b p))" by (rule assms(2))
  ultimately show ?case using Cons.prems by auto
qed

lemma fold_mirror_cell:
  fixes R C :: nat
  assumes "\<And>p. p \<in> set ps \<Longrightarrow> fst p \<le> R \<and> snd p \<le> C"
  shows "fold (\<lambda>p st. if Q p then st((R - fst p, C - snd p) := V p) else st) ps st0 q =
         (if fst q \<le> R \<and> snd q \<le> C \<and> (R - fst q, C - snd q) \<in> set ps
             \<and> Q (R - fst q, C - snd q)
          then V (R - fst q, C - snd q) else st0 q)"
  using assms
proof (induction ps arbitrary: st0)
  case Nil
  show ?case by simp
next
  case (Cons p ps)
  have b: "fst p \<le> R" "snd p \<le> C" using Cons.prems[of p] by simp_all
  have ih: "fold (\<lambda>p st. if Q p then st((R - fst p, C - snd p) := V p) else st) ps st1 q =
         (if fst q \<le> R \<and> snd q \<le> C \<and> (R - fst q, C - snd q) \<in> set ps
             \<and> Q (R - fst q, C - snd q)
          then V (R - fst q, C - snd q) else st1 q)" for st1
    using Cons.IH[of st1] Cons.prems by simp
  have m: "q = (R - fst p, C - snd p) \<longleftrightarrow> fst q \<le> R \<and> snd q \<le> C \<and> p = (R - fst q, C - snd q)"
    using b by (cases p; cases q) auto
  show ?case
    unfolding fold_Cons comp_def ih using m by (cases "Q p") auto
qed

lemma RemoveTileWithState_closed:
  "RemoveTileWithState s g =
     g\<lparr>board := (\<lambda>p. if inBoard p \<and> state (board g p) = s
                      then (board g p)\<lparr>state := EmptyTile\<rparr> else board g p)\<rparr>"
proof -
  have "fold (\<lambda>p b. if state (b (fst p, snd p)) = s
                      then b((fst p, snd p) := (b (fst p, snd p))\<lparr>state := EmptyTile\<rparr>) else b)
          cells (board g) q =
        (if inBoard q \<and> state (board g q) = s then (board g q)\<lparr>state := EmptyTile\<rparr>
         else board g q)" for q
    using fold_own_cell[where ps = cells and b = "board g" and q = q
        and G = "\<lambda>p t. if state t = s then t\<lparr>state := EmptyTile\<rparr> else t", OF distinct_cells]
    by (simp add: set_cells)
  then show ?thesis
    unfolding RemoveTileWithState_def fold_rows_cols cells_def[symmetric] by (simp add: fun_eq_iff)
qed

lemma UpdateBoard_closed:
  "UpdateBoard g =
     g\<lparr>board := (\<lambda>p. if inBoard p \<and> isSymbol (state (board g p))
                      then (board g p)\<lparr>rotation :=
                             (if rotation (board g p) < 16777216 then rotation (board g p) + 1
                              else rotation (board g p))\<rparr>
                      else board g p)\<rparr>"
proof -
  have "fold (\<lambda>p b. if isSymbol (state (b (fst p, snd p)))
                      then b((fst p, snd p) := (b (fst p, snd p))\<lparr>rotation :=
                             (if rotation (b (fst p, snd p)) < 16777216
                              then rotation (b (fst p, snd p)) + 1
                              else rotation (b (fst p, snd p)))\<rparr>) else b)
          cells (board g) q =
        (if inBoard q \<and> isSymbol (state (board g q))
         then (board g q)\<lparr>rotation :=
                 (if rotation (board g q) < 16777216 then rotation (board g q) + 1
                  else rotation (board g q))\<rparr>
         else board g q)" for q
    using fold_own_cell[where ps = cells and b = "board g" and q = q
        and G = "\<lambda>p t. if isSymbol (state t)
                        then t\<lparr>rotation := (if rotation t < 16777216 then rotation t + 1
                                             else rotation t)\<rparr> else t", OF distinct_cells]
    by (simp add: set_cells)
  then show ?thesis
    unfolding UpdateBoard_def fold_rows_cols cells_def[symmetric] by (simp add: fun_eq_iff)
qed

lemma SetTile_closed:
  "SetTile c r s g =
     g\<lparr>board := (\<lambda>p. if p = (r, c) then (board g p)\<lparr>state := s, rotation := 0\<rparr>
                      else if (s = PlayerTile \<or> s = MouseOverTile) \<and> inBoard p
                              \<and> state (board g p) = s
                      then (board g p)\<lparr>state := EmptyTile\<rparr> else board g p)\<rparr>"
  by (cases s) (auto simp: SetTile_def RemoveTileWithState_closed fun_eq_iff)

lemma reflectStates_closed:
  "reflectStates b q =
     (if inBoard q \<and> isSymbol (state (b (mirror q))) then state (b (mirror q)) else EmptyTile)"
proof -
  let ?R = "NUM_ROWS - 1" and ?C = "NUM_COLS - 1"
  let ?step = "\<lambda>p st. if isSymbol (state (b p))
                       then st((?R - fst p, ?C - snd p) := state (b p)) else st"
  have r: "\<And>p. p \<in> set cells \<Longrightarrow> fst p \<le> ?R \<and> snd p \<le> ?C"
    by (auto simp: set_cells inBoard_def)
  have f: "fold ?step cells (\<lambda>_. EmptyTile) q =
         (if fst q \<le> ?R \<and> snd q \<le> ?C \<and> (?R - fst q, ?C - snd q) \<in> set cells
             \<and> isSymbol (state (b (?R - fst q, ?C - snd q)))
          then state (b (?R - fst q, ?C - snd q)) else EmptyTile)"
    by (rule fold_mirror_cell[OF r])
  have d: "reflectStates b = fold ?step cells (\<lambda>_. EmptyTile)"
    unfolding reflectStates_def fold_rows_cols cells_def[symmetric] Let_def isSymbol_def
      prod.collapse
    by simp
  have i: "fst q \<le> ?R \<and> snd q \<le> ?C \<and> (?R - fst q, ?C - snd q) \<in> set cells \<longleftrightarrow> inBoard q"
    by (auto simp: set_cells inBoard_def NUM_ROWS_def NUM_COLS_def)
  have m: "mirror q = (?R - fst q, ?C - snd q)"
    by (simp add: mirror_def)
  show ?thesis
    unfolding d f m using i by auto
qed

lemma commitStates_closed:
  "commitStates states b q =
     (if inBoard q \<and> isSymbol (states q) then (b q)\<lparr>state := states q\<rparr> else b q)"
proof -
  have "fold (\<lambda>p b. if isSymbol (states (fst p, snd p))
                      then b((fst p, snd p) := (b (fst p, snd p))\<lparr>state := states (fst p, snd p)\<rparr>)
                      else b)
          cells b q =
        (if inBoard q \<and> isSymbol (states q) then (b q)\<lparr>state := states q\<rparr> else b q)"
    using fold_own_cell[where ps = cells and b = b and q = q
        and G = "\<lambda>p t. if isSymbol (states p) then t\<lparr>state := states p\<rparr> else t",
        OF distinct_cells]
    by (simp add: set_cells)
  then show ?thesis
    unfolding commitStates_def fold_rows_cols cells_def[symmetric] Let_def isSymbol_def[symmetric]
    by simp
qed

lemma inBoard_mirror: "inBoard q \<Longrightarrow> inBoard (mirror q)"
  by (auto simp: inBoard_def mirror_def NUM_ROWS_def NUM_COLS_def)

lemma mirror_mirror: "inBoard q \<Longrightarrow> mirror (mirror q) = q"
  by (cases q) (auto simp: inBoard_def mirror_def NUM_ROWS_def NUM_COLS_def)

lemma pointReflect_closed:
  "pointReflect b q =
     (if inBoard q \<and> isSymbol (state (b (mirror q)))
      then (b q)\<lparr>state := state (b (mirror q))\<rparr> else b q)"
  by (simp add: pointReflect_def commitStates_closed reflectStates_closed isSymbol_def)

subsection \<open>The board after \<open>Reset\<close>\<close>

lemma tile_all_fields:
  "(t::tile)\<lparr>state := s, rotation := ro, tileX := a, tileY := b\<rparr> =
   \<lparr>state = s, tileX = a, tileY = b, rotation = ro\<rparr>"
  by (cases t) simp

lemma layoutCell_fold:
  "fold (layoutCell r py) [0..<n] (b, px) =
     ((\<lambda>q. if fst q = r \<and> snd q < n
           then \<lparr>state = EmptyTile, tileX = px + 180 * int (snd q), tileY = py, rotation = 0\<rparr>
           else b q),
      px + 180 * int n)"
proof (induction n)
  case 0
  show ?case by simp
next
  case (Suc n)
  have "fold (layoutCell r py) [0..<Suc n] (b, px) =
        layoutCell r py n (fold (layoutCell r py) [0..<n] (b, px))"
    by simp
  also have "\<dots> = layoutCell r py n
       ((\<lambda>q. if fst q = r \<and> snd q < n
           then \<lparr>state = EmptyTile, tileX = px + 180 * int (snd q), tileY = py, rotation = 0\<rparr>
           else b q),
        px + 180 * int n)"
    by (simp only: Suc)
  also have "\<dots> =
     ((\<lambda>q. if fst q = r \<and> snd q < Suc n
           then \<lparr>state = EmptyTile, tileX = px + 180 * int (snd q), tileY = py, rotation = 0\<rparr>
           else b q),
      px + 180 * int (Suc n))"
    by (auto simp: layoutCell_def tile_all_fields TITLE_RADIUS_def fun_eq_iff less_Suc_eq)
  finally show ?case .
qed

lemma layoutRow_fold:
  "fold layoutRow [0..<n] (b, 180, py) =
     ((\<lambda>q. if fst q < n \<and> snd q < NUM_COLS
           then \<lparr>state = EmptyTile, tileX = 180 + 180 * int (snd q),
                 tileY = py + 150 * int (fst q), rotation = 0\<rparr>
           else b q),
      180, py + 150 * int n)"
proof (induction n)
  case 0
  show ?case by simp
next
  case (Suc n)
  have "fold layoutRow [0..<Suc n] (b, 180, py) = layoutRow n (fold layoutRow [0..<n] (b, 180, py))"
    by simp
  also have "\<dots> = layoutRow n
     ((\<lambda>q. if fst q < n \<and> snd q < NUM_COLS
           then \<lparr>state = EmptyTile, tileX = 180 + 180 * int (snd q),
                 tileY = py + 150 * int (fst q), rotation = 0\<rparr>
           else b q),
      180, py + 150 * int n)"
    by (simp only: Suc)
  also have "\<dots> =
     ((\<lambda>q. if fst q < Suc n \<and> snd q < NUM_COLS
           then \<lparr>state = EmptyTile, tileX = 180 + 180 * int (snd q),
                 tileY = py + 150 * int (fst q), rotation = 0\<rparr>
           else b q),
      180, py + 150 * int (Suc n))"
    by (auto simp: layoutRow_def layoutCell_fold TITLE_RADIUS_def fun_eq_iff less_Suc_eq)
  finally show ?case .
qed

lemma laidOut_layout:
  "laidOut (board g) (\<lambda>_. EmptyTile)
     (g\<lparr>board := fst (fold layoutRow [0..<NUM_ROWS] (board g, 180, 180))\<rparr>)"
  by (simp add: laidOut_def layoutRow_fold inBoard_def)

lemma laidOut_markInvalid:
  "laidOut b0 L g \<Longrightarrow> inBoard (r, c) \<Longrightarrow>
   laidOut b0 (L((r, c) := InvalidTile)) (markInvalid r c g)"
  by (auto simp: laidOut_def markInvalid_def)

lemma laidOut_SetTile:
  "laidOut b0 L g \<Longrightarrow> inBoard (r, c) \<Longrightarrow> s \<noteq> PlayerTile \<Longrightarrow> s \<noteq> MouseOverTile \<Longrightarrow>
   laidOut b0 (L((r, c) := s)) (SetTile c r s g)"
  by (cases s) (auto simp: laidOut_def SetTile_def)

lemma laidOut_fields:
  "laidOut b0 L g \<Longrightarrow>
   laidOut b0 L (g\<lparr>gameState := gs, timeLeft := tleft, symbolObjective := sobj,
                    columnObjective := cobj, win := wn\<rparr>)"
  by (simp add: laidOut_def)

lemma Reset_laidOut: "laidOut (board g) fixedLayout (Reset a d g)"
proof -
  have t: "TITLE_RADIUS * 3 = 180" by (simp add: TITLE_RADIUS_def)
  show ?thesis
    unfolding Reset_def Let_def fixedLayout_def t
    by (rule laidOut_fields, (rule laidOut_SetTile laidOut_markInvalid)+, rule laidOut_layout)
       (simp_all add: inBoard_def NUM_ROWS_def NUM_COLS_def)
qed

lemma Reset_board:
  "board (Reset a d g) p =
     (if inBoard p
      then \<lparr>state = fixedLayout p, tileX = 180 + 180 * int (snd p),
            tileY = 180 + 150 * int (fst p), rotation = 0\<rparr>
      else board g p)"
proof -
  have "\<forall>q. board (Reset a d g) q =
     (if inBoard q
      then \<lparr>state = fixedLayout q, tileX = 180 + 180 * int (snd q),
            tileY = 180 + 150 * int (fst q), rotation = 0\<rparr>
      else board g q)"
    using Reset_laidOut[of g a d] unfolding laidOut_def .
  then show ?thesis by (rule spec)
qed

lemma Reset_fields:
  "gameState (Reset a d g) = PlayingState"
  "timeLeft (Reset a d g) = MAX_TIME"
  "symbolObjective (Reset a d g) = tileStateOfDraw a"
  "columnObjective (Reset a d g) = d mod 4"
  "win (Reset a d g) = False"
  "centerSymbolPosition (Reset a d g) = centerSymbolPosition g"
  "objectiveSymbolPosition (Reset a d g) = objectiveSymbolPosition g"
  "buttonX (Reset a d g) = buttonX g"
  "buttonY (Reset a d g) = buttonY g"
  by (simp_all add: Reset_def Let_def SetTile_def markInvalid_def)

subsection \<open>The fixed layout is symmetric\<close>

lemma cells_list:
  "cells = [(0,0),(0,1),(0,2),(0,3),(0,4),(0,5),(0,6),
            (1,0),(1,1),(1,2),(1,3),(1,4),(1,5),(1,6),
            (2,0),(2,1),(2,2),(2,3),(2,4),(2,5),(2,6),
            (3,0),(3,1),(3,2),(3,3),(3,4),(3,5),(3,6),
            (4,0),(4,1),(4,2),(4,3),(4,4),(4,5),(4,6)]"
  by (simp add: cells_def NUM_ROWS_def NUM_COLS_def upt_rec[of _ "numeral _"] upt_rec[of 0])

lemma fixedLayout_symmetric:
  assumes "inBoard q"
  shows "isSymbol (fixedLayout (mirror q)) = isSymbol (fixedLayout q)"
proof -
  have "\<forall>p\<in>set cells. isSymbol (fixedLayout (mirror p)) = isSymbol (fixedLayout p)"
    unfolding cells_list
    by (simp add: fixedLayout_def mirror_def isSymbol_def NUM_ROWS_def NUM_COLS_def)
  then show ?thesis using assms by (simp add: set_cells)
qed

section \<open>The point reflection (first stage of \<open>End\<close>)\<close>

text \<open>
  Claim C5, as amended. One application of the point reflection writes the symbol of every
  cell that holds Alpha, Beta or Center to the cell \<open>(rows-1-row, cols-1-col)\<close>; every cell that
  receives no reflected symbol keeps its whole tile, also when it held a symbol, so a cell
  whose opposite cell held no symbol retains the symbol it had; when the symbol cells of
  the board are symmetric under the reflection (as in the layout of \<open>Reset\<close>), every symbol
  on the board after the transform was placed there by the reflection.
\<close>

theorem pointReflect_places:
  "(r < NUM_ROWS \<and> c < NUM_COLS \<and> isSymbol (state (b (r, c))) \<longrightarrow>
      state (pointReflect b (NUM_ROWS - 1 - r, NUM_COLS - 1 - c)) = state (b (r, c))) \<and>
   (\<not> (inBoard q \<and> isSymbol (state (b (mirror q)))) \<longrightarrow> pointReflect b q = b q) \<and>
   (inBoard q \<and> isSymbol (state (pointReflect b q)) \<and> \<not> isSymbol (state (b (mirror q))) \<longrightarrow>
      isSymbol (state (b q)) \<and> pointReflect b q = b q) \<and>
   ((\<forall>p. inBoard p \<longrightarrow> isSymbol (state (b (mirror p))) = isSymbol (state (b p))) \<and>
    inBoard q \<and> isSymbol (state (pointReflect b q)) \<longrightarrow>
      isSymbol (state (b (mirror q))) \<and> state (pointReflect b q) = state (b (mirror q)))"
proof -
  have a: "r < NUM_ROWS \<and> c < NUM_COLS \<and> isSymbol (state (b (r, c))) \<longrightarrow>
      state (pointReflect b (NUM_ROWS - 1 - r, NUM_COLS - 1 - c)) = state (b (r, c))"
  proof (intro impI, elim conjE)
    assume h: "r < NUM_ROWS" "c < NUM_COLS" "isSymbol (state (b (r, c)))"
    then have i: "inBoard (r, c)" by (simp add: inBoard_def)
    have m: "(NUM_ROWS - 1 - r, NUM_COLS - 1 - c) = mirror (r, c)" by (simp add: mirror_def)
    show "state (pointReflect b (NUM_ROWS - 1 - r, NUM_COLS - 1 - c)) = state (b (r, c))"
      unfolding m pointReflect_closed using h(3) i by (simp add: inBoard_mirror mirror_mirror)
  qed
  have b: "\<not> (inBoard q \<and> isSymbol (state (b (mirror q)))) \<longrightarrow> pointReflect b q = b q"
    by (simp add: pointReflect_closed)
  have c: "inBoard q \<and> isSymbol (state (pointReflect b q)) \<and> \<not> isSymbol (state (b (mirror q))) \<longrightarrow>
      isSymbol (state (b q)) \<and> pointReflect b q = b q"
    by (simp add: pointReflect_closed)
  have d: "(\<forall>p. inBoard p \<longrightarrow> isSymbol (state (b (mirror p))) = isSymbol (state (b p))) \<and>
    inBoard q \<and> isSymbol (state (pointReflect b q)) \<longrightarrow>
      isSymbol (state (b (mirror q))) \<and> state (pointReflect b q) = state (b (mirror q))"
  proof (intro impI, elim conjE)
    assume s: "\<forall>p. inBoard p \<longrightarrow> isSymbol (state (b (mirror p))) = isSymbol (state (b p))"
      and i: "inBoard q" and r: "isSymbol (state (pointReflect b q))"
    from s i have e: "isSymbol (state (b (mirror q))) = isSymbol (state (b q))" by blast
    show "isSymbol (state (b (mirror q))) \<and> state (pointReflect b q) = state (b (mirror q))"
      using r i e by (simp add: pointReflect_closed split: if_splits)
  qed
  from a b c d show ?thesis by blast
qed

theorem pointReflect_places_witness:
  "state (pointReflect oneAlpha (4, 6)) = AlphaTile \<and>
   pointReflect oneAlpha (1, 2) = oneAlpha (1, 2) \<and>
   pointReflect oneAlpha (0, 0) = oneAlpha (0, 0) \<and>
   state (pointReflect (board (Reset 0 0 New)) (0, 0)) = AlphaTile"
proof -
  let ?B = "board (Reset 0 0 New)"
  have n: "NUM_ROWS - 1 - 0 = 4" "NUM_COLS - 1 - 0 = 6" "(0::nat) < NUM_ROWS" "(0::nat) < NUM_COLS"
    by (simp_all add: NUM_ROWS_def NUM_COLS_def)
  have i: "inBoard (0, 0)" "inBoard (1, 2)" "inBoard (4, 6)"
    by (simp_all add: inBoard_def NUM_ROWS_def NUM_COLS_def)
  have m: "mirror (0, 0) = (4, 6)" "mirror (1, 2) = (3, 4)"
    by (simp_all add: mirror_def NUM_ROWS_def NUM_COLS_def)
  have o: "isSymbol (state (oneAlpha (0, 0)))" "state (oneAlpha (0, 0)) = AlphaTile"
    "\<not> isSymbol (state (oneAlpha (3, 4)))" "\<not> isSymbol (state (oneAlpha (4, 6)))"
    by (simp_all add: oneAlpha_def isSymbol_def)
  have 1: "state (pointReflect oneAlpha (4, 6)) = AlphaTile"
    using pointReflect_places[of 0 0 oneAlpha "(1, 2)", THEN conjunct1] n o by simp
  have 2: "pointReflect oneAlpha (1, 2) = oneAlpha (1, 2)"
    using pointReflect_places[of 0 0 oneAlpha "(1, 2)", THEN conjunct2, THEN conjunct1] m o
    by simp
  have r: "isSymbol (state (pointReflect oneAlpha (0, 0)))"
    using i m o by (simp add: pointReflect_closed)
  have 3: "pointReflect oneAlpha (0, 0) = oneAlpha (0, 0)"
    using pointReflect_places[of 0 0 oneAlpha "(0, 0)", THEN conjunct2, THEN conjunct2,
        THEN conjunct1] i m o r
    by simp
  have s: "\<forall>p. inBoard p \<longrightarrow> isSymbol (state (?B (mirror p))) = isSymbol (state (?B p))"
    by (simp add: Reset_board inBoard_mirror fixedLayout_symmetric)
  have f: "fixedLayout (4, 6) = AlphaTile" by (simp add: fixedLayout_def)
  have rb: "isSymbol (state (pointReflect ?B (0, 0)))"
    using i m f by (simp add: pointReflect_closed Reset_board isSymbol_def)
  have "state (pointReflect ?B (0, 0)) = state (?B (mirror (0, 0)))"
    using pointReflect_places[of 0 0 ?B "(0, 0)", THEN conjunct2, THEN conjunct2,
        THEN conjunct2] s i rb
    by blast
  then have 4: "state (pointReflect ?B (0, 0)) = AlphaTile"
    using i m f by (simp add: Reset_board)
  from 1 2 3 4 show ?thesis by simp
qed

text \<open>
  C5 as stated fails: on a board whose only symbol is an Alpha in cell \<open>(0, 0)\<close>, that cell
  still holds Alpha after the transform, although its opposite cell \<open>(4, 6)\<close> held no
  symbol, so nothing was reflected into it.
\<close>

theorem pointReflect_retains_counterexample:
  "inBoard (0, 0) \<and> state (pointReflect oneAlpha (0, 0)) = AlphaTile \<and>
   mirror (0, 0) = (4, 6) \<and> state (oneAlpha (4, 6)) = EmptyTile"
  by (simp add: pointReflect_closed oneAlpha_def inBoard_def mirror_def isSymbol_def
      NUM_ROWS_def NUM_COLS_def)

text \<open>
  Claim C3, as amended. For every board, applying the point reflection twice leaves in
  every cell that held a symbol the symbol it held; the whole board is the starting
  board again when its symbol cells are symmetric under the reflection (as in the layout
  of \<open>Reset\<close>).
\<close>

theorem pointReflect_twice:
  "(inBoard p \<and> isSymbol (state (b p)) \<longrightarrow>
      state (pointReflect (pointReflect b) p) = state (b p)) \<and>
   ((\<forall>q. inBoard q \<longrightarrow> isSymbol (state (b (mirror q))) = isSymbol (state (b q))) \<longrightarrow>
      pointReflect (pointReflect b) = b)"
proof -
  have a: "inBoard p \<and> isSymbol (state (b p)) \<longrightarrow>
      state (pointReflect (pointReflect b) p) = state (b p)"
    by (simp add: pointReflect_closed inBoard_mirror mirror_mirror)
  have b: "(\<forall>q. inBoard q \<longrightarrow> isSymbol (state (b (mirror q))) = isSymbol (state (b q))) \<longrightarrow>
      pointReflect (pointReflect b) = b"
  proof
    assume s: "\<forall>q. inBoard q \<longrightarrow> isSymbol (state (b (mirror q))) = isSymbol (state (b q))"
    show "pointReflect (pointReflect b) = b"
    proof
      fix q
      show "pointReflect (pointReflect b) q = b q"
      proof (cases "inBoard q")
        case False
        then show ?thesis by (simp add: pointReflect_closed)
      next
        case True
        with s have "isSymbol (state (b (mirror q))) = isSymbol (state (b q))" by blast
        with True show ?thesis
          by (simp add: pointReflect_closed inBoard_mirror mirror_mirror)
      qed
    qed
  qed
  from a b show ?thesis ..
qed

theorem pointReflect_twice_witness:
  "state (pointReflect (pointReflect (board (Reset 0 0 New))) (0, 0)) = BetaTile \<and>
   pointReflect (pointReflect (board (Reset 0 0 New))) = board (Reset 0 0 New)"
proof -
  have s: "\<forall>q. inBoard q \<longrightarrow>
      isSymbol (state (board (Reset 0 0 New) (mirror q))) = isSymbol (state (board (Reset 0 0 New) q))"
    by (simp add: Reset_board inBoard_mirror fixedLayout_symmetric)
  have i: "inBoard (0, 0) \<and> isSymbol (state (board (Reset 0 0 New) (0, 0)))
           \<and> state (board (Reset 0 0 New) (0, 0)) = BetaTile"
    by (simp add: Reset_board inBoard_def fixedLayout_def isSymbol_def NUM_ROWS_def NUM_COLS_def)
  show ?thesis
    using pointReflect_twice[of "(0, 0)" "board (Reset 0 0 New)"] s i by simp
qed

text \<open>
  C3 as stated fails: starting from the board with a single Alpha in \<open>(0, 0)\<close>, two
  applications leave an Alpha in cell \<open>(4, 6)\<close>, which was empty.
\<close>

theorem pointReflect_twice_counterexample:
  "state (oneAlpha (4, 6)) = EmptyTile \<and>
   state (pointReflect (pointReflect oneAlpha) (4, 6)) = AlphaTile"
  by (simp add: pointReflect_closed oneAlpha_def inBoard_def mirror_def isSymbol_def
      NUM_ROWS_def NUM_COLS_def)

section \<open>Pointer handling\<close>

subsection \<open>What \<open>HandleMouseInBoard\<close> can do\<close>

lemma mouseInRow_Some:
  "mouseInRow cx cy d g r cs = Some g' \<Longrightarrow>
   \<exists>c\<in>set cs. (state (board g (r, c)) = EmptyTile \<or> state (board g (r, c)) = MouseOverTile)
      \<and> g' = SetTile c r (if d then PlayerTile else MouseOverTile) g"
  by (induction cs) (auto split: if_splits)

lemma mouseInRows_Some:
  "mouseInRows cx cy d g rs = Some g' \<Longrightarrow>
   \<exists>r\<in>set rs. \<exists>c<NUM_COLS.
      (state (board g (r, c)) = EmptyTile \<or> state (board g (r, c)) = MouseOverTile)
      \<and> g' = SetTile c r (if d then PlayerTile else MouseOverTile) g"
proof (induction rs)
  case Nil
  then show ?case by simp
next
  case (Cons r rs)
  show ?case
  proof (cases "mouseInRow cx cy d g r [0..<NUM_COLS]")
    case None
    with Cons show ?thesis by auto
  next
    case (Some h)
    with Cons.prems have "h = g'" by simp
    with Some mouseInRow_Some[of cx cy d g r "[0..<NUM_COLS]" g'] show ?thesis by auto
  qed
qed

lemma HandleMouseInBoard_cases:
  "HandleMouseInBoard i g = g \<or>
   (\<exists>r c. inBoard (r, c)
      \<and> (state (board g (r, c)) = EmptyTile \<or> state (board g (r, c)) = MouseOverTile)
      \<and> HandleMouseInBoard i g = SetTile c r (if pressed i then PlayerTile else MouseOverTile) g)"
proof (cases "mouseInRows (cursorX i) (cursorY i) (pressed i) g [0..<NUM_ROWS]")
  case None
  then show ?thesis by (simp add: HandleMouseInBoard_def)
next
  case (Some g')
  from mouseInRows_Some[OF Some] obtain r c where
    rc: "r < NUM_ROWS" "c < NUM_COLS"
      "state (board g (r, c)) = EmptyTile \<or> state (board g (r, c)) = MouseOverTile"
      "g' = SetTile c r (if pressed i then PlayerTile else MouseOverTile) g"
    by auto
  have "HandleMouseInBoard i g = g'" using Some by (simp add: HandleMouseInBoard_def)
  moreover have "inBoard (r, c)" using rc by (simp add: inBoard_def)
  ultimately show ?thesis using rc by blast
qed

lemma SetTile_mark_tile:
  assumes "s = PlayerTile \<or> s = MouseOverTile"
  shows "board (SetTile c r s g) p =
     (if p = (r, c) then (board g p)\<lparr>state := s, rotation := 0\<rparr>
      else if inBoard p \<and> state (board g p) = s then (board g p)\<lparr>state := EmptyTile\<rparr>
      else board g p)"
  using assms by (simp add: SetTile_closed)

lemma rows_list: "[0..<NUM_ROWS] = [0, 1, 2, 3, 4]"
  by (simp add: NUM_ROWS_def upt_rec[of _ "numeral _"] upt_rec[of 0])

lemma cols_list: "[0..<NUM_COLS] = [0, 1, 2, 3, 4, 5, 6]"
  by (simp add: NUM_COLS_def upt_rec[of _ "numeral _"] upt_rec[of 0])

lemma inBoard_iff: "inBoard (r, c) \<longleftrightarrow> r < 5 \<and> c < 7"
  by (simp add: inBoard_def NUM_ROWS_def NUM_COLS_def)

lemma click_hits_1_6:
  "HandleMouseInBoard clickTick (Reset a d g) = SetTile 6 1 PlayerTile (Reset a d g)"
  unfolding HandleMouseInBoard_def
  by (simp add: rows_list cols_list clickTick_def Reset_board inBoard_iff fixedLayout_def
      ShapeHit_def TITLE_RADIUS_def)

text \<open>
  Claim C10. For every board, cursor position and button state, the pointer handler leaves
  every cell that holds Alpha, Beta, Center or Invalid exactly as it was; a cell that
  comes out of the handler holding a Hover or PlayerChoice mark and is not the tile it
  was before held Empty or Hover; and the handler changes nothing but the board.
\<close>

theorem pointer_marks_only_free_cells:
  "(state (board g p) = AlphaTile \<or> state (board g p) = BetaTile
      \<or> state (board g p) = CenterTile \<or> state (board g p) = InvalidTile
    \<longrightarrow> board (HandleMouseInBoard i g) p = board g p) \<and>
   ((state (board (HandleMouseInBoard i g) p) = MouseOverTile
       \<or> state (board (HandleMouseInBoard i g) p) = PlayerTile)
      \<and> board (HandleMouseInBoard i g) p \<noteq> board g p
    \<longrightarrow> state (board g p) = EmptyTile \<or> state (board g p) = MouseOverTile) \<and>
   (HandleMouseInBoard i g)\<lparr>board := board g\<rparr> = g"
proof -
  let ?s = "if pressed i then PlayerTile else MouseOverTile"
  have m: "?s = PlayerTile \<or> ?s = MouseOverTile" by simp
  from HandleMouseInBoard_cases[of i g] show ?thesis
  proof
    assume "HandleMouseInBoard i g = g"
    then show ?thesis by simp
  next
    assume "\<exists>r c. inBoard (r, c)
      \<and> (state (board g (r, c)) = EmptyTile \<or> state (board g (r, c)) = MouseOverTile)
      \<and> HandleMouseInBoard i g = SetTile c r ?s g"
    then obtain r c where i: "inBoard (r, c)"
      and f: "state (board g (r, c)) = EmptyTile \<or> state (board g (r, c)) = MouseOverTile"
      and h: "HandleMouseInBoard i g = SetTile c r ?s g"
      by blast
    have t: "board (SetTile c r ?s g) p =
         (if p = (r, c) then (board g p)\<lparr>state := ?s, rotation := 0\<rparr>
          else if inBoard p \<and> state (board g p) = ?s then (board g p)\<lparr>state := EmptyTile\<rparr>
          else board g p)"
      by (rule SetTile_mark_tile[OF m])
    have 1: "state (board g p) = AlphaTile \<or> state (board g p) = BetaTile
      \<or> state (board g p) = CenterTile \<or> state (board g p) = InvalidTile
      \<longrightarrow> board (HandleMouseInBoard i g) p = board g p"
      unfolding h t using f by auto
    have 2: "(state (board (HandleMouseInBoard i g) p) = MouseOverTile
       \<or> state (board (HandleMouseInBoard i g) p) = PlayerTile)
      \<and> board (HandleMouseInBoard i g) p \<noteq> board g p
      \<longrightarrow> state (board g p) = EmptyTile \<or> state (board g p) = MouseOverTile"
      unfolding h t using f by (auto split: if_splits)
    have 3: "(HandleMouseInBoard i g)\<lparr>board := board g\<rparr> = g"
      unfolding h by (simp add: SetTile_closed)
    from 1 2 3 show ?thesis by blast
  qed
qed

theorem pointer_marks_only_free_cells_witness:
  "board (HandleMouseInBoard clickTick (Reset 0 3 New)) (0, 6) = board (Reset 0 3 New) (0, 6) \<and>
   state (board (Reset 0 3 New) (0, 6)) = AlphaTile \<and>
   state (board (HandleMouseInBoard clickTick (Reset 0 3 New)) (1, 6)) = PlayerTile \<and>
   state (board (Reset 0 3 New) (1, 6)) = EmptyTile"
proof -
  let ?G = "Reset 0 3 New"
  have i: "inBoard (0, 6)" "inBoard (1, 6)"
    by (simp_all add: inBoard_def NUM_ROWS_def NUM_COLS_def)
  have a: "state (board ?G (0, 6)) = AlphaTile" "state (board ?G (1, 6)) = EmptyTile"
    using i by (simp_all add: Reset_board fixedLayout_def)
  have p: "state (board (HandleMouseInBoard clickTick ?G) (1, 6)) = PlayerTile"
    unfolding click_hits_1_6 by (simp add: SetTile_closed)
  have c: "board (HandleMouseInBoard clickTick ?G) (1, 6) \<noteq> board ?G (1, 6)"
    using p a(2) by auto
  have 1: "board (HandleMouseInBoard clickTick ?G) (0, 6) = board ?G (0, 6)"
    using pointer_marks_only_free_cells[of ?G "(0, 6)" clickTick, THEN conjunct1] a(1) by simp
  have "state (board ?G (1, 6)) = EmptyTile \<or> state (board ?G (1, 6)) = MouseOverTile"
    using pointer_marks_only_free_cells[of ?G "(1, 6)" clickTick, THEN conjunct2, THEN conjunct1]
      p c by blast
  with 1 a p show ?thesis by simp
qed

subsection \<open>Uniqueness of the marks\<close>

lemma atMostOne_mono:
  assumes "\<And>p. inBoard p \<Longrightarrow> state (b' p) = s \<Longrightarrow> state (b p) = s"
    and "atMostOne s b"
  shows "atMostOne s b'"
  using assms unfolding atMostOne_def Ball_def set_cells by blast

lemma atMostOne_single:
  assumes "\<And>p. inBoard p \<Longrightarrow> state (b p) = s \<Longrightarrow> p = q"
  shows "atMostOne s b"
  using assms unfolding atMostOne_def Ball_def set_cells by blast

lemma checkWin_board: "board (checkWin r c op g) = board g"
  by (simp add: checkWin_def playerWins_def Let_def split: prod.splits)

lemma flipBoard_board:
  "board (flipBoard g) = pointReflect (board (RemoveTileWithState MouseOverTile g))"
  by (simp add: flipBoard_def Let_def)

lemma End_board:
  "board (End g) = pointReflect (board (RemoveTileWithState MouseOverTile g))"
  by (simp add: End_def Let_def checkWin_board flipBoard_board split: prod.splits)

lemma End_state_mark:
  assumes "s = MouseOverTile \<or> s = PlayerTile" and "state (board (End g) p) = s"
  shows "state (board g p) = s"
  using assms
  by (auto simp: End_board pointReflect_closed RemoveTileWithState_closed isSymbol_def
      split: if_splits)

lemma marksUnique_End: "marksUnique g \<Longrightarrow> marksUnique (End g)"
  unfolding marksUnique_def
  by (meson atMostOne_mono End_state_mark)

lemma marksUnique_UpdateBoard: "marksUnique g \<Longrightarrow> marksUnique (UpdateBoard g)"
  unfolding marksUnique_def
  by (auto simp: UpdateBoard_closed elim!: atMostOne_mono[rotated] split: if_splits)

lemma marksUnique_Reset: "marksUnique (Reset a d g)"
proof -
  have "\<And>p. inBoard p \<Longrightarrow> state (board (Reset a d g) p) \<noteq> MouseOverTile
      \<and> state (board (Reset a d g) p) \<noteq> PlayerTile"
    by (simp add: Reset_board fixedLayout_def)
  then show ?thesis
    unfolding marksUnique_def atMostOne_def Ball_def set_cells by blast
qed

lemma marksUnique_SetTile:
  assumes "marksUnique g" and "s = PlayerTile \<or> s = MouseOverTile"
    and "state (board g (r, c)) = EmptyTile \<or> state (board g (r, c)) = MouseOverTile"
  shows "marksUnique (SetTile c r s g)"
proof -
  have t: "\<And>p. board (SetTile c r s g) p =
     (if p = (r, c) then (board g p)\<lparr>state := s, rotation := 0\<rparr>
      else if inBoard p \<and> state (board g p) = s then (board g p)\<lparr>state := EmptyTile\<rparr>
      else board g p)"
    by (rule SetTile_mark_tile[OF assms(2)])
  have own: "atMostOne s (board (SetTile c r s g))"
  proof (rule atMostOne_single[where q = "(r, c)"])
    fix p assume "inBoard p" "state (board (SetTile c r s g) p) = s"
    then show "p = (r, c)" using assms(2) unfolding t by (auto split: if_splits)
  qed
  have other: "atMostOne u (board (SetTile c r s g))"
    if u: "u = PlayerTile \<or> u = MouseOverTile" "u \<noteq> s" and a: "atMostOne u (board g)" for u
  proof (rule atMostOne_mono[OF _ a])
    fix p assume "inBoard p" "state (board (SetTile c r s g) p) = u"
    then show "state (board g p) = u" using u unfolding t by (auto split: if_splits)
  qed
  show ?thesis
    using assms(1,2) own other[of PlayerTile] other[of MouseOverTile]
    unfolding marksUnique_def by auto
qed

lemma marksUnique_HandleMouseInBoard:
  "marksUnique g \<Longrightarrow> marksUnique (HandleMouseInBoard i g)"
  using HandleMouseInBoard_cases[of i g] marksUnique_SetTile[of g]
  by (auto split: if_splits)

lemma marksUnique_fields:
  "board g' = board g \<Longrightarrow> marksUnique g \<Longrightarrow> marksUnique g'"
  by (simp add: marksUnique_def)

lemma marksUnique_UpdateTimeBar: "marksUnique g \<Longrightarrow> marksUnique (UpdateTimeBar rnd i g)"
  unfolding UpdateTimeBar_def Let_def
  by (auto intro!: marksUnique_End elim: marksUnique_fields[rotated])

lemma marksUnique_UpdateButtons: "marksUnique g \<Longrightarrow> marksUnique (UpdateButtons i g)"
  unfolding UpdateButtons_def Let_def
  by (auto intro!: marksUnique_Reset elim: marksUnique_fields[rotated])

lemma marksUnique_Update: "marksUnique g \<Longrightarrow> marksUnique (Update rnd i g)"
  unfolding Update_def
  by (auto split: GameState.splits
      intro!: marksUnique_HandleMouseInBoard marksUnique_UpdateBoard marksUnique_UpdateTimeBar
        marksUnique_UpdateButtons)

lemma marksUnique_run: "marksUnique g \<Longrightarrow> marksUnique (run rnd ins g)"
  unfolding run_def by (induction ins arbitrary: g) (simp_all add: marksUnique_Update)

text \<open>
  Claim C9. After \<open>Reset\<close> and any sequence of ticks (timer, rotation, pointer and button
  handling, including the end of the round and later restarts), at most one cell of the
  board holds Hover and at most one holds PlayerChoice.
\<close>

theorem at_most_one_mark:
  "atMostOne MouseOverTile (board (run rnd ins (Reset a d g))) \<and>
   atMostOne PlayerTile (board (run rnd ins (Reset a d g)))"
  using marksUnique_run[OF marksUnique_Reset] unfolding marksUnique_def .

lemma click_hits_laid_out:
  assumes "\<And>p. inBoard p \<Longrightarrow> state (board h p) = fixedLayout p
      \<and> tileX (board h p) = 180 + 180 * int (snd p) \<and> tileY (board h p) = 180 + 150 * int (fst p)"
  shows "HandleMouseInBoard clickTick h = SetTile 6 1 PlayerTile h"
  unfolding HandleMouseInBoard_def
  by (simp add: rows_list cols_list clickTick_def assms inBoard_iff fixedLayout_def
      ShapeHit_def TITLE_RADIUS_def)

lemma first_tick_click:
  "run id [clickTick] (Reset a d g) =
   SetTile 6 1 PlayerTile (UpdateBoard ((Reset a d g)\<lparr>timeLeft := 15 - 16 / 1000\<rparr>))"
proof -
  let ?h = "UpdateBoard ((Reset a d g)\<lparr>timeLeft := 15 - 16 / 1000\<rparr>)"
  have u: "UpdateTimeBar id clickTick (Reset a d g) = (Reset a d g)\<lparr>timeLeft := 15 - 16 / 1000\<rparr>"
    by (simp add: UpdateTimeBar_def Reset_fields MAX_TIME_def clickTick_def Let_def)
  have "HandleMouseInBoard clickTick ?h = SetTile 6 1 PlayerTile ?h"
    by (rule click_hits_laid_out) (simp add: UpdateBoard_closed Reset_board)
  then show ?thesis
    by (simp add: run_def Update_def Reset_fields u)
qed

theorem at_most_one_mark_witness:
  "state (board (run id [clickTick] (Reset 0 3 New)) (1, 6)) = PlayerTile \<and>
   state (board (run id [clickTick] (Reset 0 3 New)) (2, 3)) \<noteq> PlayerTile"
proof -
  let ?G = "run id [clickTick] (Reset 0 3 New)"
  have p: "state (board ?G (1, 6)) = PlayerTile"
    unfolding first_tick_click by (simp add: SetTile_closed)
  have c: "(1, 6) \<in> set cells" "(2, 3) \<in> set cells"
    by (simp_all add: set_cells inBoard_iff)
  have "atMostOne PlayerTile (board ?G)"
    using at_most_one_mark[of id "[clickTick]" 0 3 New] by (rule conjunct2)
  then have "state (board ?G (1, 6)) = PlayerTile \<and> state (board ?G (2, 3)) = PlayerTile
      \<longrightarrow> ((1, 6) :: nat \<times> nat) = (2, 3)"
    using c unfolding atMostOne_def by blast
  with p show ?thesis by auto
qed

section \<open>The rotation of a tile\<close>

text \<open>
  Claim C8, as amended. \<open>SetTile\<close> sets the rotation of the tile it places to 0 and leaves
  every other rotation as it was, and so the pointer handler sets the rotation of the
  cell it marks to 0; \<open>RemoveTileWithState\<close> (the clearing of marks, also inside
  \<open>SetTile\<close>) and \<open>End\<close> (the end-of-round transform) change tile states and leave every
  rotation as it was.
\<close>

theorem rotation_reset_by_SetTile_only:
  "rotation (board (SetTile c r s g) (r, c)) = 0 \<and>
   (p \<noteq> (r, c) \<longrightarrow> rotation (board (SetTile c r s g) p) = rotation (board g p)) \<and>
   rotation (board (RemoveTileWithState s g) p) = rotation (board g p) \<and>
   (columnObjective g < 4 \<longrightarrow> rotation (board (End g) p) = rotation (board g p)) \<and>
   ((state (board (HandleMouseInBoard i g) p) = MouseOverTile
       \<or> state (board (HandleMouseInBoard i g) p) = PlayerTile)
      \<and> state (board (HandleMouseInBoard i g) p) \<noteq> state (board g p)
    \<longrightarrow> rotation (board (HandleMouseInBoard i g) p) = 0)"
proof -
  have 1: "rotation (board (SetTile c r s g) (r, c)) = 0"
    by (simp add: SetTile_closed)
  have 2: "p \<noteq> (r, c) \<longrightarrow> rotation (board (SetTile c r s g) p) = rotation (board g p)"
    by (simp add: SetTile_closed)
  have 3: "rotation (board (RemoveTileWithState s g) p) = rotation (board g p)"
    by (simp add: RemoveTileWithState_closed)
  have 4: "columnObjective g < 4 \<longrightarrow> rotation (board (End g) p) = rotation (board g p)"
    by (simp add: End_board pointReflect_closed RemoveTileWithState_closed)
  have 5: "(state (board (HandleMouseInBoard i g) p) = MouseOverTile
       \<or> state (board (HandleMouseInBoard i g) p) = PlayerTile)
      \<and> state (board (HandleMouseInBoard i g) p) \<noteq> state (board g p)
    \<longrightarrow> rotation (board (HandleMouseInBoard i g) p) = 0"
    using HandleMouseInBoard_cases[of i g]
    by (auto simp: SetTile_closed split: if_splits)
  from 1 2 3 4 5 show ?thesis by blast
qed

theorem rotation_reset_by_SetTile_only_witness:
  "rotation (board (SetTile 6 1 PlayerTile (Reset 0 3 New)) (0, 0))
     = rotation (board (Reset 0 3 New) (0, 0)) \<and>
   columnObjective (Reset 0 3 New) < 4 \<and>
   rotation (board (End (Reset 0 3 New)) (0, 0)) = rotation (board (Reset 0 3 New) (0, 0)) \<and>
   state (board (HandleMouseInBoard clickTick (Reset 0 3 New)) (1, 6)) = PlayerTile \<and>
   state (board (Reset 0 3 New) (1, 6)) = EmptyTile \<and>
   rotation (board (HandleMouseInBoard clickTick (Reset 0 3 New)) (1, 6)) = 0"
proof -
  let ?G = "Reset 0 3 New"
  note t = rotation_reset_by_SetTile_only[of 6 1 PlayerTile ?G "(0, 0)" clickTick]
  note u = rotation_reset_by_SetTile_only[of 6 1 PlayerTile ?G "(1, 6)" clickTick]
  have a: "state (board ?G (1, 6)) = EmptyTile"
    by (simp add: Reset_board fixedLayout_def inBoard_iff)
  have p: "state (board (HandleMouseInBoard clickTick ?G) (1, 6)) = PlayerTile"
    unfolding click_hits_1_6 by (simp add: SetTile_closed)
  have 1: "rotation (board (SetTile 6 1 PlayerTile ?G) (0, 0)) = rotation (board ?G (0, 0))"
    using t[THEN conjunct2, THEN conjunct1] by simp
  have 2: "rotation (board (HandleMouseInBoard clickTick ?G) (1, 6)) = 0"
    using u[THEN conjunct2, THEN conjunct2, THEN conjunct2, THEN conjunct2] a p by simp
  have k: "columnObjective ?G < 4" by (simp add: Reset_fields)
  have 3: "rotation (board (End ?G) (0, 0)) = rotation (board ?G (0, 0))"
    using t[THEN conjunct2, THEN conjunct2, THEN conjunct2, THEN conjunct1] k by simp
  from 1 2 3 k a p show ?thesis by simp
qed

text \<open>
  C8 as stated fails: after \<open>Reset\<close> and one \<open>UpdateBoard\<close> the tile in cell \<open>(0, 0)\<close>
  holds Beta with rotation 1; \<open>End\<close> changes its state to Alpha and its rotation is
  still 1.
\<close>

theorem rotation_kept_by_End_counterexample:
  "state (board (UpdateBoard (Reset 0 0 New)) (0, 0)) = BetaTile \<and>
   state (board (End (UpdateBoard (Reset 0 0 New))) (0, 0)) = AlphaTile \<and>
   rotation (board (End (UpdateBoard (Reset 0 0 New))) (0, 0)) = 1"
  by (simp add: End_board pointReflect_closed RemoveTileWithState_closed UpdateBoard_closed
      Reset_board inBoard_iff mirror_def NUM_ROWS_def NUM_COLS_def fixedLayout_def isSymbol_def)

section \<open>The search for the centre and the objective\<close>

lemma checkWin_center:
  "centerSymbolPosition (checkWin r c op g) = \<lparr>row = r, column = c\<rparr>"
  by (simp add: checkWin_def playerWins_def Let_def split: prod.splits)


lemma flipBoard_fields:
  "gameState (flipBoard g) = gameState g"
  "timeLeft (flipBoard g) = timeLeft g"
  "buttonX (flipBoard g) = buttonX g"
  "buttonY (flipBoard g) = buttonY g"
  "columnObjective (flipBoard g) = columnObjective g"
  "symbolObjective (flipBoard g) = symbolObjective g"
  "win (flipBoard g) = win g"
  "centerSymbolPosition (flipBoard g) = centerSymbolPosition g"
  "objectiveSymbolPosition (flipBoard g) = objectiveSymbolPosition g"
  by (simp_all add: flipBoard_def RemoveTileWithState_def Let_def)


lemma End_not_found:
  assumes "\<not> resolutionFound g"
  shows "End g = (flipBoard g)\<lparr>gameState := EndState\<rparr>"
  using assms by (auto simp: End_def resolutionFound_def Let_def split: prod.splits)

lemma centerScan_upt:
  "(k \<le> centerScan b col [k..<n] \<and> centerScan b col [k..<n] < n
      \<and> state (b (centerScan b col [k..<n], col)) = CenterTile
      \<and> (\<forall>r. k \<le> r \<and> r < centerScan b col [k..<n] \<longrightarrow> state (b (r, col)) \<noteq> CenterTile))
   \<or> (centerScan b col [k..<n] = 0 \<and> (\<forall>r. k \<le> r \<and> r < n \<longrightarrow> state (b (r, col)) \<noteq> CenterTile))"
proof (induction "n - k" arbitrary: k)
  case 0
  then show ?case by auto
next
  case (Suc m)
  then have l: "k < n" and m: "m = n - Suc k" by simp_all
  have u: "[k..<n] = k # [Suc k..<n]" using l by (simp add: upt_rec)
  show ?case
  proof (cases "state (b (k, col)) = CenterTile")
    case True
    then show ?thesis using l by (auto simp: u)
  next
    case False
    have s: "centerScan b col [k..<n] = centerScan b col [Suc k..<n]"
      using False by (simp add: u)
    have x: "\<And>r. k \<le> r \<Longrightarrow> r = k \<or> Suc k \<le> r" by arith
    let ?r0 = "centerScan b col [Suc k..<n]"
    from Suc.hyps(1)[OF m] show ?thesis
      unfolding s
    proof (elim disjE conjE)
      assume a: "Suc k \<le> ?r0" "?r0 < n" "state (b (?r0, col)) = CenterTile"
        "\<forall>r. Suc k \<le> r \<and> r < ?r0 \<longrightarrow> state (b (r, col)) \<noteq> CenterTile"
      have "\<forall>r. k \<le> r \<and> r < ?r0 \<longrightarrow> state (b (r, col)) \<noteq> CenterTile"
        using a(4) False x by blast
      with a show "(k \<le> ?r0 \<and> ?r0 < n \<and> state (b (?r0, col)) = CenterTile
          \<and> (\<forall>r. k \<le> r \<and> r < ?r0 \<longrightarrow> state (b (r, col)) \<noteq> CenterTile))
        \<or> (?r0 = 0 \<and> (\<forall>r. k \<le> r \<and> r < n \<longrightarrow> state (b (r, col)) \<noteq> CenterTile))"
        by simp
    next
      assume c: "?r0 = 0"
        "\<forall>r. Suc k \<le> r \<and> r < n \<longrightarrow> state (b (r, col)) \<noteq> CenterTile"
      have "\<forall>r. k \<le> r \<and> r < n \<longrightarrow> state (b (r, col)) \<noteq> CenterTile"
        using c(2) False x by blast
      with c show "(k \<le> ?r0 \<and> ?r0 < n \<and> state (b (?r0, col)) = CenterTile
          \<and> (\<forall>r. k \<le> r \<and> r < ?r0 \<longrightarrow> state (b (r, col)) \<noteq> CenterTile))
        \<or> (?r0 = 0 \<and> (\<forall>r. k \<le> r \<and> r < n \<longrightarrow> state (b (r, col)) \<noteq> CenterTile))"
        by simp
    qed
  qed
qed

text \<open>
  Claim C6. For a column group below 4, the centre is looked for in column
  \<open>columnObjective * 2\<close> of the flipped board; the anchor row is the smallest row of that
  column holding Center, or 0 when no row does; the candidates are searched around that
  anchor in either case, and when an objective is found the anchor becomes
  \<open>centerSymbolPosition\<close>.
\<close>

theorem center_anchor_first_match:
  assumes "columnObjective g < 4"
  shows "columnObjective g * 2 < NUM_COLS \<and>
     (let col = columnObjective g * 2;
          b = board (flipBoard g);
          r0 = centerScan b col [0..<NUM_ROWS]
      in ((r0 < NUM_ROWS \<and> state (b (r0, col)) = CenterTile
             \<and> (\<forall>r<r0. state (b (r, col)) \<noteq> CenterTile))
          \<or> (r0 = 0 \<and> (\<forall>r<NUM_ROWS. state (b (r, col)) \<noteq> CenterTile)))
       \<and> locateObjective (flipBoard g) =
            (r0, col, findObjective b (TilesAroundATileWithAnState b r0 col (symbolObjective g)))
       \<and> (resolutionFound g \<longrightarrow> centerSymbolPosition (End g) = \<lparr>row = r0, column = col\<rparr>))"
proof -
  let ?col = "columnObjective g * 2"
  let ?b = "board (flipBoard g)"
  let ?r0 = "centerScan ?b ?col [0..<NUM_ROWS]"
  have 1: "?col < NUM_COLS" using assms by (simp add: NUM_COLS_def)
  have 2: "(?r0 < NUM_ROWS \<and> state (?b (?r0, ?col)) = CenterTile
             \<and> (\<forall>r<?r0. state (?b (r, ?col)) \<noteq> CenterTile))
          \<or> (?r0 = 0 \<and> (\<forall>r<NUM_ROWS. state (?b (r, ?col)) \<noteq> CenterTile))"
    using centerScan_upt[of 0 ?b ?col NUM_ROWS] by simp
  have 3: "locateObjective (flipBoard g) =
      (?r0, ?col, findObjective ?b (TilesAroundATileWithAnState ?b ?r0 ?col (symbolObjective g)))"
    by (simp add: locateObjective_def Let_def flipBoard_fields split: prod.splits)
  have 4: "resolutionFound g \<longrightarrow> centerSymbolPosition (End g) = \<lparr>row = ?r0, column = ?col\<rparr>"
    by (auto simp: resolutionFound_def End_def Let_def 3 checkWin_center split: prod.splits)
  from 1 2 3 4 show ?thesis by (simp add: Let_def)
qed

subsection \<open>Disambiguation\<close>

lemma TilesAround_spec:
  assumes "r < NUM_ROWS" "c < NUM_COLS"
  shows "TilesAroundATileWithAnState b r c s = specNeighbours b (r, c) s"
  using assms
  by (auto simp: TilesAroundATileWithAnState_def specNeighbours_def specProbes_def
      specInBounds_def NUM_ROWS_def NUM_COLS_def Let_def nat_diff_distrib nat_add_distrib)

lemma TilesAround_inBoard:
  assumes "r < NUM_ROWS" "c < NUM_COLS" "p \<in> set (TilesAroundATileWithAnState b r c s)"
  shows "row p < NUM_ROWS \<and> column p < NUM_COLS"
  using assms
  by (auto simp: TilesAroundATileWithAnState_def NUM_ROWS_def NUM_COLS_def Let_def
      split: if_splits)

lemma pickCandidate_find:
  assumes "\<And>p. p \<in> set ps \<Longrightarrow> row p < NUM_ROWS \<and> column p < NUM_COLS"
  shows "resultOf (pickCandidate b ps) =
         find (\<lambda>p. length (specNeighbours b (row p, column p) CenterTile) = 1) ps"
  using assms
proof (induction ps)
  case Nil
  show ?case by (simp add: resultOf_def)
next
  case (Cons p ps)
  have e: "TilesAroundATileWithAnState b (row p) (column p) CenterTile =
        specNeighbours b (row p, column p) CenterTile"
    using Cons.prems[of p] by (simp add: TilesAround_spec)
  have ih: "resultOf (pickCandidate b ps) =
         find (\<lambda>p. length (specNeighbours b (row p, column p) CenterTile) = 1) ps"
    using Cons.IH Cons.prems by simp
  show ?case
  proof (cases "length (specNeighbours b (row p, column p) CenterTile) = 1")
    case True
    then show ?thesis using e by (simp add: resultOf_def)
  next
    case False
    then show ?thesis using e ih by simp
  qed
qed

text \<open>
  Claim C4. For every board, every anchor cell on the board and every objective symbol,
  the objective that the code selects among the candidates around the anchor is the one
  that the reference definition selects among the reference candidates.
\<close>

theorem disambiguation_refines_spec:
  assumes "r < NUM_ROWS" and "c < NUM_COLS"
  shows "resultOf (findObjective b (TilesAroundATileWithAnState b r c s)) =
         specDisambiguate b (specNeighbours b (r, c) s)"
proof -
  let ?ps = "TilesAroundATileWithAnState b r c s"
  have e: "?ps = specNeighbours b (r, c) s" using assms by (rule TilesAround_spec)
  have i: "\<And>p. p \<in> set ?ps \<Longrightarrow> row p < NUM_ROWS \<and> column p < NUM_COLS"
    using assms by (rule TilesAround_inBoard)
  have f: "resultOf (pickCandidate b ?ps) =
         find (\<lambda>p. length (specNeighbours b (row p, column p) CenterTile) = 1) ?ps"
    using i by (rule pickCandidate_find)
  show ?thesis
  proof (cases ?ps)
    case Nil
    then show ?thesis
      unfolding e[symmetric] by (simp add: findObjective_def specDisambiguate_def resultOf_def)
  next
    case (Cons p ps)
    show ?thesis
    proof (cases ps)
      case Nil
      with Cons show ?thesis
        unfolding e[symmetric]
        by (simp add: findObjective_def specDisambiguate_def resultOf_def)
    next
      case (Cons p' ps')
      with \<open>?ps = p # ps\<close> have l: "length ?ps > 1" by simp
      then show ?thesis
        unfolding e[symmetric] using f
        by (auto simp: findObjective_def specDisambiguate_def Let_def)
    qed
  qed
qed

section \<open>The player's cell and the flipped fixed layout\<close>

lemma playerInRow_None:
  "playerInRow b r cs = None \<longleftrightarrow> (\<forall>c\<in>set cs. state (b (r, c)) \<noteq> PlayerTile)"
  by (induction cs) auto

lemma playerInRow_Some:
  "playerInRow b r cs = Some p \<Longrightarrow>
   row p = r \<and> column p \<in> set cs \<and> state (b (r, column p)) = PlayerTile"
  by (induction cs) (auto split: if_splits)

lemma playerInRows_None:
  "playerInRows b rs = None \<longleftrightarrow>
   (\<forall>r\<in>set rs. \<forall>c<NUM_COLS. state (b (r, c)) \<noteq> PlayerTile)"
proof (induction rs)
  case Nil
  show ?case by simp
next
  case (Cons r rs)
  show ?case
  proof (cases "playerInRow b r [0..<NUM_COLS]")
    case None
    then have "\<forall>c<NUM_COLS. state (b (r, c)) \<noteq> PlayerTile"
      by (simp add: playerInRow_None)
    with None Cons show ?thesis by simp
  next
    case (Some p)
    from playerInRow_Some[OF Some]
    have "\<exists>c<NUM_COLS. state (b (r, c)) = PlayerTile" by auto
    with Some show ?thesis by auto
  qed
qed

lemma playerInRows_Some:
  "playerInRows b rs = Some p \<Longrightarrow>
   row p \<in> set rs \<and> column p < NUM_COLS \<and> state (b (row p, column p)) = PlayerTile"
proof (induction rs)
  case Nil
  then show ?case by simp
next
  case (Cons r rs)
  show ?case
  proof (cases "playerInRow b r [0..<NUM_COLS]")
    case None
    with Cons show ?thesis by auto
  next
    case (Some q)
    with Cons.prems have "q = p" by simp
    with Some playerInRow_Some[of b r "[0..<NUM_COLS]" p] show ?thesis by auto
  qed
qed

lemma FindPlayerPosition_none:
  assumes "\<And>p. inBoard p \<Longrightarrow> state (board g p) \<noteq> PlayerTile"
  shows "FindPlayerPosition g = (False, \<lparr>row = 0, column = 0\<rparr>)"
proof -
  have "playerInRows (board g) [0..<NUM_ROWS] = None"
    unfolding playerInRows_None using assms by (auto simp: inBoard_def)
  then show ?thesis by (simp add: FindPlayerPosition_def)
qed

lemma FindPlayerPosition_unique:
  assumes "inBoard (r, c)" and "state (board g (r, c)) = PlayerTile"
    and "\<And>p. inBoard p \<Longrightarrow> state (board g p) = PlayerTile \<Longrightarrow> p = (r, c)"
  shows "FindPlayerPosition g = (True, \<lparr>row = r, column = c\<rparr>)"
proof (cases "playerInRows (board g) [0..<NUM_ROWS]")
  case None
  then have "state (board g (r, c)) \<noteq> PlayerTile"
    unfolding playerInRows_None using assms(1) by (auto simp: inBoard_def)
  with assms(2) show ?thesis by simp
next
  case (Some p)
  from playerInRows_Some[OF Some]
  have "inBoard (row p, column p)" "state (board g (row p, column p)) = PlayerTile"
    by (auto simp: inBoard_def)
  then have "(row p, column p) = (r, c)" by (rule assms(3))
  then have "p = \<lparr>row = r, column = c\<rparr>" by (cases p) simp
  with Some show ?thesis by (simp add: FindPlayerPosition_def)
qed

lemma FindPlayerPosition_board:
  "board g' = board g \<Longrightarrow> FindPlayerPosition g' = FindPlayerPosition g"
  by (simp add: FindPlayerPosition_def)

text \<open>The flipped board of a freshly laid out game, with or without a mark.\<close>

lemma flipped_state:
  assumes "\<forall>p. inBoard p \<longrightarrow> state (board h p) = (if p = q then m else fixedLayout p)"
    and "\<not> isSymbol m" and "fixedLayout q = EmptyTile" and "inBoard p"
  shows "state (board (flipBoard h) p) =
     (if isSymbol (fixedLayout (mirror p)) then fixedLayout (mirror p)
      else if p = q \<and> m \<noteq> MouseOverTile then m
      else fixedLayout p)"
proof -
  have i: "inBoard (mirror p)" using assms(4) by (rule inBoard_mirror)
  have f: "isSymbol (fixedLayout (mirror p)) = isSymbol (fixedLayout p)"
    using assms(4) by (rule fixedLayout_symmetric)
  have n: "fixedLayout p \<noteq> MouseOverTile"
    by (simp add: fixedLayout_def)
  have a: "state (board h p) = (if p = q then m else fixedLayout p)"
    using assms(1,4) by blast
  have b: "state (board h (mirror p)) = (if mirror p = q then m else fixedLayout (mirror p))"
    using assms(1) i by blast
  have e: "\<not> isSymbol (fixedLayout q)" using assms(3) by (simp add: isSymbol_def)
  have c: "isSymbol (state (board h (mirror p))) = isSymbol (fixedLayout (mirror p))"
    unfolding b using assms(2) e by auto
  have d: "isSymbol (fixedLayout (mirror p)) \<Longrightarrow> state (board h (mirror p)) = fixedLayout (mirror p)"
    unfolding b using e by auto
  let ?b1 = "board (RemoveTileWithState MouseOverTile h)"
  have s1: "state (?b1 x) =
      (if inBoard x \<and> state (board h x) = MouseOverTile then EmptyTile else state (board h x))"
    for x by (simp add: RemoveTileWithState_closed)
  have y1: "isSymbol (state (?b1 (mirror p))) = isSymbol (fixedLayout (mirror p))"
    unfolding s1 c[symmetric] by (auto simp: isSymbol_def)
  have y2: "isSymbol (fixedLayout (mirror p)) \<Longrightarrow> state (?b1 (mirror p)) = fixedLayout (mirror p)"
    unfolding s1 using d by (auto simp: isSymbol_def)
  have y3: "state (board (flipBoard h) p) =
      (if isSymbol (state (?b1 (mirror p))) then state (?b1 (mirror p)) else state (?b1 p))"
    using assms(4) by (simp add: flipBoard_board pointReflect_closed)
  have r: "state (board (flipBoard h) p) =
     (if isSymbol (fixedLayout (mirror p)) then fixedLayout (mirror p)
      else if state (board h p) = MouseOverTile then EmptyTile else state (board h p))"
    unfolding y3 y1 using y2 assms(4) by (simp add: s1)
  show ?thesis
    unfolding r a using n assms(3) by auto
qed

lemma fixedLayout_no_mark:
  "fixedLayout p \<noteq> PlayerTile" "fixedLayout p \<noteq> MouseOverTile"
  by (simp_all add: fixedLayout_def)

lemma fresh_states:
  "inBoard p \<Longrightarrow>
   state (board (Reset a d g) p) = (if p = (1, 6) then EmptyTile else fixedLayout p)"
  by (simp add: Reset_board fixedLayout_def)

lemma picked_states:
  "inBoard p \<Longrightarrow>
   state (board (SetTile 6 1 PlayerTile (Reset a d g)) p) =
     (if p = (1, 6) then PlayerTile else fixedLayout p)"
  by (simp add: SetTile_closed Reset_board fixedLayout_no_mark)

lemma locate_column_3_alpha:
  assumes s: "\<forall>p. inBoard p \<longrightarrow> state (board h p) = (if p = (1, 6) then m else fixedLayout p)"
    and m: "\<not> isSymbol m"
    and o: "columnObjective h = 3" "symbolObjective h = AlphaTile"
  shows "locateObjective (flipBoard h) = (2, 6, True, \<lparr>row = 0, column = 6\<rparr>)"
proof -
  have e: "fixedLayout (1, 6) = EmptyTile" by (simp add: fixedLayout_def)
  note f = flipped_state[of h "(1, 6)" m, OF s m e]
  have c: "m \<noteq> CenterTile" "m \<noteq> AlphaTile" using m by (auto simp: isSymbol_def)
  have v: "state (board (flipBoard h) (0, 6)) = AlphaTile"
    "state (board (flipBoard h) (1, 6)) \<noteq> CenterTile"
    "state (board (flipBoard h) (2, 6)) = CenterTile"
    "state (board (flipBoard h) (4, 6)) = BetaTile"
    "state (board (flipBoard h) (2, 4)) = AlphaTile"
    "state (board (flipBoard h) (0, 4)) = BetaTile"
    using c f[of "(0, 6)"] f[of "(1, 6)"] f[of "(2, 6)"] f[of "(4, 6)"] f[of "(2, 4)"]
      f[of "(0, 4)"]
    by (simp_all add: inBoard_iff mirror_def NUM_ROWS_def NUM_COLS_def fixedLayout_def
        isSymbol_def)
  show ?thesis
    unfolding locateObjective_def Let_def rows_list
    using v
    by (simp add: flipBoard_fields o TilesAroundATileWithAnState_def findObjective_def
        NUM_ROWS_def NUM_COLS_def numeral_2_eq_2[symmetric])
qed

lemma End_column_3_alpha:
  assumes s: "\<forall>p. inBoard p \<longrightarrow> state (board h p) = (if p = (1, 6) then m else fixedLayout p)"
    and m: "\<not> isSymbol m"
    and o: "columnObjective h = 3" "symbolObjective h = AlphaTile"
  shows "End h = (checkWin 2 6 \<lparr>row = 0, column = 6\<rparr> (flipBoard h))\<lparr>gameState := EndState\<rparr>"
  using locate_column_3_alpha[OF s m o] by (simp add: End_def Let_def)

lemma picked_player:
  "FindPlayerPosition (flipBoard (SetTile 6 1 PlayerTile (Reset a d g))) =
     (True, \<lparr>row = 1, column = 6\<rparr>)"
proof (rule FindPlayerPosition_unique)
  let ?K = "SetTile 6 1 PlayerTile (Reset a d g)"
  have e: "fixedLayout (1, 6) = EmptyTile" by (simp add: fixedLayout_def)
  have m: "\<not> isSymbol PlayerTile" by (simp add: isSymbol_def)
  have s: "\<forall>p. inBoard p \<longrightarrow>
      state (board ?K p) = (if p = (1, 6) then PlayerTile else fixedLayout p)"
    by (intro allI impI picked_states)
  note f = flipped_state[of ?K "(1, 6)" PlayerTile, OF s m e]
  show i: "inBoard (1, 6)" by (simp add: inBoard_iff)
  show "state (board (flipBoard ?K) (1, 6)) = PlayerTile"
    using f[of "(1, 6)", OF i]
    by (simp add: mirror_def NUM_ROWS_def NUM_COLS_def fixedLayout_def isSymbol_def)
  fix p assume p: "inBoard p" "state (board (flipBoard ?K) p) = PlayerTile"
  show "p = (1, 6)"
    using p(2) unfolding f[OF p(1)]
    by (auto simp: fixedLayout_no_mark isSymbol_def split: if_splits)
qed

lemma fresh_player:
  "FindPlayerPosition (flipBoard (Reset a d g)) = (False, \<lparr>row = 0, column = 0\<rparr>)"
proof (rule FindPlayerPosition_none)
  have e: "fixedLayout (1, 6) = EmptyTile" by (simp add: fixedLayout_def)
  have m: "\<not> isSymbol EmptyTile" by (simp add: isSymbol_def)
  have s: "\<forall>p. inBoard p \<longrightarrow>
      state (board (Reset a d g) p) = (if p = (1, 6) then EmptyTile else fixedLayout p)"
    by (intro allI impI fresh_states)
  note f = flipped_state[of "Reset a d g" "(1, 6)" EmptyTile, OF s m e]
  fix p assume p: "inBoard p"
  show "state (board (flipBoard (Reset a d g)) p) \<noteq> PlayerTile"
    unfolding f[OF p] by (auto simp: fixedLayout_no_mark isSymbol_def)
qed

lemma New_fields:
  "columnObjective New = 0" "win New = False"
  "centerSymbolPosition New = \<lparr>row = 0, column = 0\<rparr>"
  "objectiveSymbolPosition New = \<lparr>row = 0, column = 0\<rparr>"
  "buttonX New = 1470" "buttonY New = 490"
  by (simp_all add: New_def Standby_def Let_def WIDTH_def HEIGHT_def BUTTON_WIDTH_def
      BUTTON_HEIGHT_def)

lemma stray_flipped:
  assumes "board h = strayBoard"
  shows "state (board (flipBoard h) p) = (if p = (2, 6) \<or> p = (2, 0) then AlphaTile else EmptyTile)"
proof -
  have mm: "inBoard p \<Longrightarrow> (mirror p = (2, 6)) = (p = (2, 0))"
    by (cases p) (auto simp: mirror_def inBoard_def NUM_ROWS_def NUM_COLS_def)
  have i: "inBoard (2, 0)" by (simp add: inBoard_iff)
  show ?thesis
    using mm i
    by (auto simp: flipBoard_board pointReflect_closed RemoveTileWithState_closed assms
        strayBoard_def isSymbol_def)
qed

lemma stray_locate_alpha:
  assumes "board h = strayBoard" "columnObjective h = 0" "symbolObjective h = AlphaTile"
  shows "locateObjective (flipBoard h) = (0, 0, True, \<lparr>row = 2, column = 0\<rparr>)"
  unfolding locateObjective_def Let_def rows_list
  by (simp add: flipBoard_fields assms stray_flipped TilesAroundATileWithAnState_def
      findObjective_def NUM_ROWS_def NUM_COLS_def)

lemma stray_locate_beta:
  assumes "board h = strayBoard" "columnObjective h = 0" "symbolObjective h = BetaTile"
  shows "locateObjective (flipBoard h) = (0, 0, False, \<lparr>row = 0, column = 0\<rparr>)"
  unfolding locateObjective_def Let_def rows_list
  by (simp add: flipBoard_fields assms stray_flipped TilesAroundATileWithAnState_def
      findObjective_def NUM_ROWS_def NUM_COLS_def)

theorem center_anchor_first_match_witness:
  "columnObjective strayAlpha < 4 \<and>
   centerScan (board (flipBoard strayAlpha)) 0 [0..<NUM_ROWS] = 0 \<and>
   state (board (flipBoard strayAlpha) (0, 0)) = EmptyTile \<and>
   state (board (flipBoard strayAlpha) (1, 0)) = EmptyTile \<and>
   state (board (flipBoard strayAlpha) (2, 0)) = AlphaTile \<and>
   state (board (flipBoard strayAlpha) (3, 0)) = EmptyTile \<and>
   state (board (flipBoard strayAlpha) (4, 0)) = EmptyTile \<and>
   resolutionFound strayAlpha \<and>
   centerSymbolPosition (End strayAlpha) = \<lparr>row = 0, column = 0\<rparr>"
proof -
  have f: "board strayAlpha = strayBoard" "columnObjective strayAlpha = 0"
    "symbolObjective strayAlpha = AlphaTile"
    by (simp_all add: strayAlpha_def New_fields)
  have k: "columnObjective strayAlpha < 4" by (simp add: f)
  have n: "resolutionFound strayAlpha"
    by (simp add: resolutionFound_def stray_locate_alpha[OF f])
  have a: "centerScan (board (flipBoard strayAlpha)) 0 [0..<NUM_ROWS] = 0"
    unfolding rows_list by (simp add: stray_flipped[OF f(1)])
  have b: "state (board (flipBoard strayAlpha) (0, 0)) = EmptyTile"
    "state (board (flipBoard strayAlpha) (1, 0)) = EmptyTile"
    "state (board (flipBoard strayAlpha) (2, 0)) = AlphaTile"
    "state (board (flipBoard strayAlpha) (3, 0)) = EmptyTile"
    "state (board (flipBoard strayAlpha) (4, 0)) = EmptyTile"
    by (simp_all add: stray_flipped[OF f(1)])
  have "centerSymbolPosition (End strayAlpha) = \<lparr>row = 0, column = 0\<rparr>"
    using center_anchor_first_match[OF k] n a by (simp add: Let_def f)
  with k n a b show ?thesis by simp
qed

theorem disambiguation_refines_spec_witness:
  "(2::nat) < NUM_ROWS \<and> (0::nat) < NUM_COLS \<and>
   specDisambiguate (board (flipBoard (Reset 0 0 New)))
     (specNeighbours (board (flipBoard (Reset 0 0 New))) (2, 0) AlphaTile)
   = Some \<lparr>row = 4, column = 0\<rparr>"
proof -
  let ?B = "board (flipBoard (Reset 0 0 New))"
  have e: "fixedLayout (1, 6) = EmptyTile" by (simp add: fixedLayout_def)
  have m: "\<not> isSymbol EmptyTile" by (simp add: isSymbol_def)
  have s: "\<forall>p. inBoard p \<longrightarrow>
      state (board (Reset 0 0 New) p) = (if p = (1, 6) then EmptyTile else fixedLayout p)"
    by (intro allI impI fresh_states)
  note f = flipped_state[of "Reset 0 0 New" "(1, 6)" EmptyTile, OF s m e]
  have v: "state (?B (0, 0)) = AlphaTile" "state (?B (4, 0)) = AlphaTile"
    "state (?B (2, 2)) = BetaTile" "state (?B (2, 0)) = CenterTile"
    "state (?B (0, 2)) = CenterTile" "state (?B (4, 2)) = BetaTile"
    using f[of "(0, 0)"] f[of "(4, 0)"] f[of "(2, 2)"] f[of "(2, 0)"] f[of "(0, 2)"]
      f[of "(4, 2)"]
    by (simp_all add: inBoard_iff mirror_def NUM_ROWS_def NUM_COLS_def fixedLayout_def
        isSymbol_def)
  have b: "(2::nat) < NUM_ROWS" "(0::nat) < NUM_COLS"
    by (simp_all add: NUM_ROWS_def NUM_COLS_def)
  have c: "resultOf (findObjective ?B (TilesAroundATileWithAnState ?B 2 0 AlphaTile))
      = Some \<lparr>row = 4, column = 0\<rparr>"
    using v
    by (simp add: TilesAroundATileWithAnState_def findObjective_def resultOf_def
        NUM_ROWS_def NUM_COLS_def numeral_2_eq_2[symmetric])
  show ?thesis
    using disambiguation_refines_spec[OF b, of ?B AlphaTile] c b by simp
qed

section \<open>The win check\<close>

text \<open>
  What \<open>checkWin\<close> computes when a player cell exists: the horizontal case accepts the
  player strictly between the objective and the centre on either side, the vertical case
  only with the objective below the centre.
\<close>

lemma checkWin_win:
  assumes "FindPlayerPosition g = (True, pp)"
  shows "win (checkWin r c op g) =
     (win g
      \<or> (row op = r \<and> r = row pp
          \<and> (column op < column pp \<and> column pp < c \<or> c < column pp \<and> column pp < column op))
      \<or> (\<not> (row op = r \<and> r = row pp) \<and> column op = c \<and> c = column pp
          \<and> r < row pp \<and> row pp < row op))"
proof -
  have f: "FindPlayerPosition
      (g\<lparr>objectiveSymbolPosition := op, centerSymbolPosition := \<lparr>row = r, column = c\<rparr>\<rparr>)
      = (True, pp)"
    using assms by (simp add: FindPlayerPosition_def)
  show ?thesis
    unfolding checkWin_def Let_def using f by (auto simp: playerWins_def)
qed

text \<open>
  Claim C1 does not hold of the code. After \<open>Reset\<close> with objective Alpha in column group
  3, the player picks the cell in row 1, column 6. \<open>End\<close> resolves the centre to row 2 and
  the objective to row 0 of column 6; the player's cell lies in that column strictly
  between them, and \<open>win\<close> stays false.
\<close>

theorem vertical_win_above_missed:
  "centerSymbolPosition (End (HandleMouseInBoard clickTick (Reset 0 3 New)))
     = \<lparr>row = 2, column = 6\<rparr> \<and>
   objectiveSymbolPosition (End (HandleMouseInBoard clickTick (Reset 0 3 New)))
     = \<lparr>row = 0, column = 6\<rparr> \<and>
   FindPlayerPosition (End (HandleMouseInBoard clickTick (Reset 0 3 New)))
     = (True, \<lparr>row = 1, column = 6\<rparr>) \<and>
   win (End (HandleMouseInBoard clickTick (Reset 0 3 New))) = False"
proof -
  let ?K = "SetTile 6 1 PlayerTile (Reset 0 3 New)"
  have m: "\<not> isSymbol PlayerTile" by (simp add: isSymbol_def)
  have o: "columnObjective ?K = 3" "symbolObjective ?K = AlphaTile" "win ?K = False"
    by (simp_all add: SetTile_closed Reset_fields tileStateOfDraw_def)
  have e: "End ?K = (checkWin 2 6 \<lparr>row = 0, column = 6\<rparr> (flipBoard ?K))\<lparr>gameState := EndState\<rparr>"
  proof (rule End_column_3_alpha[OF _ m o(1,2)])
    show "\<forall>p. inBoard p \<longrightarrow>
      state (board ?K p) = (if p = (1, 6) then PlayerTile else fixedLayout p)"
      by (intro allI impI picked_states)
  qed
  have fp: "FindPlayerPosition
      ((flipBoard ?K)\<lparr>objectiveSymbolPosition := \<lparr>row = 0, column = 6\<rparr>,
                       centerSymbolPosition := \<lparr>row = 2, column = 6\<rparr>\<rparr>)
      = (True, \<lparr>row = 1, column = 6\<rparr>)"
    using picked_player[of 0 3 New] by (simp add: FindPlayerPosition_def)
  have c: "checkWin 2 6 \<lparr>row = 0, column = 6\<rparr> (flipBoard ?K) =
      (flipBoard ?K)\<lparr>objectiveSymbolPosition := \<lparr>row = 0, column = 6\<rparr>,
                      centerSymbolPosition := \<lparr>row = 2, column = 6\<rparr>\<rparr>"
    unfolding checkWin_def Let_def using fp by simp
  have "board (End ?K) = board (flipBoard ?K)"
    by (simp add: End_board flipBoard_board)
  then have "FindPlayerPosition (End ?K) = FindPlayerPosition (flipBoard ?K)"
    by (rule FindPlayerPosition_board)
  then have p: "FindPlayerPosition (End ?K) = (True, \<lparr>row = 1, column = 6\<rparr>)"
    using picked_player[of 0 3 New] by simp
  have q: "centerSymbolPosition (End ?K) = \<lparr>row = 2, column = 6\<rparr>"
    "objectiveSymbolPosition (End ?K) = \<lparr>row = 0, column = 6\<rparr>"
    "win (End ?K) = False"
    unfolding e c using o(3) by (simp_all add: flipBoard_fields)
  show ?thesis
    unfolding click_hits_1_6 using p q by simp
qed

section \<open>Rounds without a resolution\<close>

text \<open>
  Claim C2, as amended. When \<open>End\<close> finds no objective it leaves the win flag and both
  marker positions as they were and sets \<open>EndState\<close>; \<open>Reset\<close> sets the win flag to false
  and leaves both marker positions as they were.
\<close>

theorem no_resolution_keeps_outcome:
  "(columnObjective g < 4 \<and> \<not> resolutionFound g \<longrightarrow>
      win (End g) = win g \<and> centerSymbolPosition (End g) = centerSymbolPosition g
      \<and> objectiveSymbolPosition (End g) = objectiveSymbolPosition g
      \<and> gameState (End g) = EndState) \<and>
   win (Reset a d g) = False \<and>
   centerSymbolPosition (Reset a d g) = centerSymbolPosition g \<and>
   objectiveSymbolPosition (Reset a d g) = objectiveSymbolPosition g"
  by (simp add: End_not_found flipBoard_fields Reset_fields)

theorem no_resolution_keeps_outcome_witness:
  "columnObjective noBeta < 4 \<and> \<not> resolutionFound noBeta \<and>
   win (End noBeta) = False \<and>
   centerSymbolPosition (End noBeta) = \<lparr>row = 2, column = 6\<rparr> \<and>
   objectiveSymbolPosition (End noBeta) = \<lparr>row = 0, column = 6\<rparr> \<and>
   gameState (End noBeta) = EndState"
proof -
  have f: "board noBeta = strayBoard" "columnObjective noBeta = 0"
    "symbolObjective noBeta = BetaTile" "win noBeta = False"
    "centerSymbolPosition noBeta = \<lparr>row = 2, column = 6\<rparr>"
    "objectiveSymbolPosition noBeta = \<lparr>row = 0, column = 6\<rparr>"
    by (simp_all add: noBeta_def strayAlpha_def New_fields)
  have n: "\<not> resolutionFound noBeta"
    by (simp add: resolutionFound_def stray_locate_beta[OF f(1,2,3)])
  show ?thesis
    using no_resolution_keeps_outcome[of noBeta 0 0, THEN conjunct1] n f by simp
qed

text \<open>
  C2 as stated fails: the second \<open>Reset\<close> of a session keeps the marker positions that the
  first round resolved, and a round without resolution ends with the positions it
  started with.
\<close>

theorem stale_markers_counterexample:
  "centerSymbolPosition (Reset 0 0 (End (Reset 0 3 New))) = \<lparr>row = 2, column = 6\<rparr> \<and>
   objectiveSymbolPosition (Reset 0 0 (End (Reset 0 3 New))) = \<lparr>row = 0, column = 6\<rparr> \<and>
   \<not> resolutionFound noBeta \<and>
   centerSymbolPosition (End noBeta) = \<lparr>row = 2, column = 6\<rparr> \<and>
   objectiveSymbolPosition (End noBeta) = \<lparr>row = 0, column = 6\<rparr>"
proof -
  let ?K = "Reset 0 3 New"
  have m: "\<not> isSymbol EmptyTile" by (simp add: isSymbol_def)
  have o: "columnObjective ?K = 3" "symbolObjective ?K = AlphaTile"
    by (simp_all add: Reset_fields tileStateOfDraw_def)
  have e: "End ?K = (checkWin 2 6 \<lparr>row = 0, column = 6\<rparr> (flipBoard ?K))\<lparr>gameState := EndState\<rparr>"
  proof (rule End_column_3_alpha[OF _ m o])
    show "\<forall>p. inBoard p \<longrightarrow>
      state (board ?K p) = (if p = (1, 6) then EmptyTile else fixedLayout p)"
      by (intro allI impI fresh_states)
  qed
  have fp: "FindPlayerPosition
      ((flipBoard ?K)\<lparr>objectiveSymbolPosition := \<lparr>row = 0, column = 6\<rparr>,
                       centerSymbolPosition := \<lparr>row = 2, column = 6\<rparr>\<rparr>)
      = (False, \<lparr>row = 0, column = 0\<rparr>)"
    using fresh_player[of 0 3 New] by (simp add: FindPlayerPosition_def)
  have c: "checkWin 2 6 \<lparr>row = 0, column = 6\<rparr> (flipBoard ?K) =
      (flipBoard ?K)\<lparr>objectiveSymbolPosition := \<lparr>row = 0, column = 6\<rparr>,
                      centerSymbolPosition := \<lparr>row = 2, column = 6\<rparr>\<rparr>"
    unfolding checkWin_def Let_def using fp by simp
  have 1: "centerSymbolPosition (Reset 0 0 (End ?K)) = \<lparr>row = 2, column = 6\<rparr>"
    "objectiveSymbolPosition (Reset 0 0 (End ?K)) = \<lparr>row = 0, column = 6\<rparr>"
    by (simp_all add: Reset_fields e c)
  have f: "board noBeta = strayBoard" "columnObjective noBeta = 0"
    "symbolObjective noBeta = BetaTile"
    "centerSymbolPosition noBeta = \<lparr>row = 2, column = 6\<rparr>"
    "objectiveSymbolPosition noBeta = \<lparr>row = 0, column = 6\<rparr>"
    by (simp_all add: noBeta_def strayAlpha_def New_fields)
  have n: "\<not> resolutionFound noBeta"
    by (simp add: resolutionFound_def stray_locate_beta[OF f(1,2,3)])
  have 2: "centerSymbolPosition (End noBeta) = \<lparr>row = 2, column = 6\<rparr>"
    "objectiveSymbolPosition (End noBeta) = \<lparr>row = 0, column = 6\<rparr>"
    using n f by (simp_all add: End_not_found flipBoard_fields)
  from 1 2 n show ?thesis by simp
qed

section \<open>The countdown\<close>

lemma HandleMouseInBoard_only_board: "(HandleMouseInBoard i g)\<lparr>board := board g\<rparr> = g"
  using HandleMouseInBoard_cases[of i g] by (auto simp: SetTile_closed)











end
